theory Spec2Isabelle
  imports Complex_Main "HOL-Library.Word" "HOL-Library.Log_Nat"
begin

section \<open>The LFO + ADSR sketch: a shallow embedding\<close>

text \<open>
  The development embeds \<^verbatim>\<open>ArduinoAbletonLfoAdsr.ino\<close>: the globals of the sketch
  become one record, \<^verbatim>\<open>setup()\<close> and \<^verbatim>\<open>loop()\<close> become functions on it, and one call
  of \<^verbatim>\<open>loop()\<close> is one step. The sketch is written for the Arduino Due: \<^verbatim>\<open>int\<close> and
  \<^verbatim>\<open>long\<close> have 32 bits, \<^verbatim>\<open>unsigned long\<close> is a 32-bit word that wraps, \<^verbatim>\<open>byte\<close> is an
  8-bit word, \<^verbatim>\<open>float\<close> is IEEE binary32 and \<^verbatim>\<open>double\<close> is IEEE binary64.

  Every \<^verbatim>\<open>int\<close> the sketch computes is built from a 16-bit frame value (at most
  \<open>1000 * 65535\<close>) or counts received bytes up to four, so \<^verbatim>\<open>int\<close> variables are
  modelled by \<^typ>\<open>int\<close>; the timestamps, whose differences do wrap, are words.
\<close>

type_synonym byte = "8 word"
type_synonym ulong = "32 word"

subsection \<open>Undefined behaviour as errors\<close>

text \<open>
  Two operations of the sketch have no defined result in C++ for some operands: reading
  \<^verbatim>\<open>_freqArray\<close> outside its 24 entries, and converting a \<^verbatim>\<open>float\<close> that does not
  fit (or is not finite) to \<^verbatim>\<open>int\<close>. Both are branches of the model.
\<close>

datatype error = TableIndexOutOfRange | FloatToIntOutOfRange

subsection \<open>C arithmetic\<close>

text \<open>The \<^verbatim>\<open>%\<close> of C: the remainder has the sign of the dividend.\<close>

definition c_rem :: "int \<Rightarrow> int \<Rightarrow> int" where
  "c_rem a b = sgn a * (\<bar>a\<bar> mod \<bar>b\<bar>)"

text \<open>The \<^verbatim>\<open>/\<close> of C on integers: the quotient is truncated towards zero.\<close>

definition c_div :: "int \<Rightarrow> int \<Rightarrow> int" where
  "c_div a b = sgn a * sgn b * (\<bar>a\<bar> div \<bar>b\<bar>)"

text \<open>Conversion of a floating-point value to an integer type truncates towards zero.\<close>

definition c_trunc :: "real \<Rightarrow> int" where
  "c_trunc x = (if 0 \<le> x then \<lfloor>x\<rfloor> else \<lceil>x\<rceil>)"

text \<open>The cast \<^verbatim>\<open>(int)x\<close> of a float: defined when the truncated value is a 32-bit int.\<close>

definition float_to_int :: "real \<Rightarrow> error + int" where
  "float_to_int x =
     (if - 2147483649 < x \<and> x < 2147483648 then Inr (c_trunc x) else Inl FloatToIntOutOfRange)"

subsection \<open>Binary floating point\<close>

text \<open>
  A finite \<^verbatim>\<open>float\<close> or \<^verbatim>\<open>double\<close> is modelled by the real number it denotes, and
  each arithmetic operation rounds the exact result to the nearest value with a
  significand of 24 (binary32) or 53 (binary64) bits, ties to even, as IEEE 754
  prescribes for \<^verbatim>\<open>+ - * /\<close>.

  The exponent range is not modelled. In the sketch every operand is a frame value
  below \<open>2 ^ 16\<close>, a timestamp below \<open>2 ^ 32\<close>, a table entry, or the quotient of such
  numbers by 10, 100, 360 or 1000, so no result of the sketch's own arithmetic leaves
  the range of normal numbers; a quotient by a rate returned by the oscillator library
  goes straight into \<^verbatim>\<open>(int)\<close>, which is undefined for a quotient large enough to
  overflow. A divisor of zero (infinity or NaN in C++) is an error of that conversion.
\<close>

text \<open>Rounding to the nearest integer, ties to even.\<close>

definition rne :: "real \<Rightarrow> int" where
  "rne x = (let f = \<lfloor>x\<rfloor>; d = x - of_int f in
     if d < 1 / 2 then f else if 1 / 2 < d then f + 1 else if even f then f else f + 1)"

text \<open>The binary exponent of a positive number: \<open>2 ^ e \<le> y < 2 ^ (e + 1)\<close>.\<close>

definition ilog2 :: "real \<Rightarrow> int" where
  "ilog2 y = (if 1 \<le> y then int (floorlog 2 (nat \<lfloor>y\<rfloor>)) - 1
              else - int (floorlog 2 (nat (\<lceil>1 / y\<rceil> - 1))))"

definition pow2 :: "int \<Rightarrow> real" where
  "pow2 e = (if 0 \<le> e then 2 ^ nat e else 1 / 2 ^ nat (- e))"

text \<open>\<open>fround p x\<close>: the number with \<open>p\<close> significant bits nearest to \<open>x\<close>.\<close>

definition fround :: "nat \<Rightarrow> real \<Rightarrow> real" where
  "fround p x = (if x = 0 then 0 else
     let u = pow2 (ilog2 \<bar>x\<bar> - (int p - 1)) in of_int (rne (x / u)) * u)"

definition f32_sub :: "real \<Rightarrow> real \<Rightarrow> real" where
  "f32_sub a b = fround 24 (a - b)"

definition f32_mul :: "real \<Rightarrow> real \<Rightarrow> real" where
  "f32_mul a b = fround 24 (a * b)"

definition f32_div :: "real \<Rightarrow> real \<Rightarrow> real" where
  "f32_div a b = fround 24 (a / b)"

definition f64_add :: "real \<Rightarrow> real \<Rightarrow> real" where
  "f64_add a b = fround 53 (a + b)"

definition f64_mul :: "real \<Rightarrow> real \<Rightarrow> real" where
  "f64_mul a b = fround 53 (a * b)"

definition f64_div :: "real \<Rightarrow> real \<Rightarrow> real" where
  "f64_div a b = fround 53 (a / b)"

text \<open>A decimal literal is a \<^verbatim>\<open>double\<close>; stored in a \<^verbatim>\<open>float\<close> it is rounded again.\<close>

definition float_literal :: "real \<Rightarrow> real" where
  "float_literal x = fround 24 (fround 53 x)"

subsection \<open>The constants of the sketch\<close>

abbreviation DACSIZE :: int where "DACSIZE \<equiv> 4096"
abbreviation CONNECTED_TIMEOUT :: ulong where "CONNECTED_TIMEOUT \<equiv> 500000"

abbreviation ID_SONG_MEASURE :: int where "ID_SONG_MEASURE \<equiv> 251"
abbreviation ID_SONG_BPM :: int where "ID_SONG_BPM \<equiv> 250"

abbreviation ID_ADSR_ATTACK :: int where "ID_ADSR_ATTACK \<equiv> 210"
abbreviation ID_ADSR_DECAY :: int where "ID_ADSR_DECAY \<equiv> 211"
abbreviation ID_ADSR_SUSTAIN :: int where "ID_ADSR_SUSTAIN \<equiv> 212"
abbreviation ID_ADSR_RELEASE :: int where "ID_ADSR_RELEASE \<equiv> 213"
abbreviation ID_ADSR_TRIGGER :: int where "ID_ADSR_TRIGGER \<equiv> 214"

abbreviation ID_SYNC_MODE :: int where "ID_SYNC_MODE \<equiv> 220"
abbreviation ID_SYNC_MODE0_FREQ :: int where "ID_SYNC_MODE0_FREQ \<equiv> 221"
abbreviation ID_SYNC_MODE1_RATE :: int where "ID_SYNC_MODE1_RATE \<equiv> 222"
abbreviation ID_SYNC_PHASE :: int where "ID_SYNC_PHASE \<equiv> 226"

abbreviation ID_DAC0_MODE :: int where "ID_DAC0_MODE \<equiv> 230"
abbreviation ID_DAC0_MODE0_FREQ :: int where "ID_DAC0_MODE0_FREQ \<equiv> 231"
abbreviation ID_DAC0_MODE1_RATE :: int where "ID_DAC0_MODE1_RATE \<equiv> 232"
abbreviation ID_DAC0_WAVEFORM :: int where "ID_DAC0_WAVEFORM \<equiv> 233"
abbreviation ID_DAC0_AMPL :: int where "ID_DAC0_AMPL \<equiv> 234"
abbreviation ID_DAC0_AMPL_OFFSET :: int where "ID_DAC0_AMPL_OFFSET \<equiv> 235"
abbreviation ID_DAC0_PHASE :: int where "ID_DAC0_PHASE \<equiv> 236"
abbreviation ID_DAC0_ADSR_ENABLE :: int where "ID_DAC0_ADSR_ENABLE \<equiv> 237"

abbreviation ID_DAC1_MODE :: int where "ID_DAC1_MODE \<equiv> 240"
abbreviation ID_DAC1_MODE0_FREQ :: int where "ID_DAC1_MODE0_FREQ \<equiv> 241"
abbreviation ID_DAC1_MODE1_RATE :: int where "ID_DAC1_MODE1_RATE \<equiv> 242"
abbreviation ID_DAC1_WAVEFORM :: int where "ID_DAC1_WAVEFORM \<equiv> 243"
abbreviation ID_DAC1_AMPL :: int where "ID_DAC1_AMPL \<equiv> 244"
abbreviation ID_DAC1_AMPL_OFFSET :: int where "ID_DAC1_AMPL_OFFSET \<equiv> 245"
abbreviation ID_DAC1_PHASE :: int where "ID_DAC1_PHASE \<equiv> 246"
abbreviation ID_DAC1_ADSR_ENABLE :: int where "ID_DAC1_ADSR_ENABLE \<equiv> 247"

text \<open>
  \<^verbatim>\<open>float _freqArray[24] = {64, 48, 32, 24, 16, 12, 8, 6, 5.3333, 4, 3.2, 3, 2.667, 2,
  1.333, 1, 0.667, 0.5, 0.333, 0.25, 0.167, 0.125, 0.0625, 0.03125};\<close>
\<close>

definition freqArray :: "real list" where
  "freqArray = map float_literal
     [64, 48, 32, 24, 16, 12, 8, 6, 53333 / 10000, 4, 32 / 10, 3, 2667 / 1000, 2,
      1333 / 1000, 1, 667 / 1000, 5 / 10, 333 / 1000, 25 / 100, 167 / 1000, 125 / 1000,
      625 / 10000, 3125 / 100000]"

text \<open>Indexing the table: C++ performs no bounds check, the model returns \<open>None\<close>.\<close>

definition freqArray_at :: "int \<Rightarrow> real option" where
  "freqArray_at i = (if 0 \<le> i \<and> i < 24 then Some (freqArray ! nat i) else None)"

text \<open>
  \<^verbatim>\<open>int getInt(int l_highByte, int l_lowByte) {
    return ((unsigned int)l_highByte << 8) + l_lowByte; }\<close>
\<close>

definition getInt :: "int \<Rightarrow> int \<Rightarrow> int" where
  "getInt l_highByte l_lowByte =
     sint (push_bit 8 (word_of_int l_highByte :: 32 word) + word_of_int l_lowByte)"

subsection \<open>The libraries the sketch is linked with\<close>

text \<open>
  The classes \<^verbatim>\<open>lfo\<close> and \<^verbatim>\<open>adsr\<close> come from two libraries of their own, and \<^verbatim>\<open>map\<close>,
  \<^verbatim>\<open>round\<close> and \<^verbatim>\<open>pow\<close> from the Arduino core and the C library. None of them is part
  of the sketch, so the model takes them as parameters: \<open>'l\<close> is the state of an
  \<^verbatim>\<open>lfo\<close> object, \<open>'a\<close> the state of the \<^verbatim>\<open>adsr\<close> object, a setter returns the new state, and
  \<^verbatim>\<open>getWave\<close>, which may advance the object, returns the sample and the new state. The
  value a library function receives is the value of the argument expression; the
  conversion to its parameter type is part of the function.
\<close>

record ('l, 'a) library =
  lfo_new :: "int \<Rightarrow> 'l"
  lfo_setAmpl :: "int \<Rightarrow> 'l \<Rightarrow> 'l"
  lfo_setAmplOffset :: "int \<Rightarrow> 'l \<Rightarrow> 'l"
  lfo_setWaveForm :: "int \<Rightarrow> 'l \<Rightarrow> 'l"
  lfo_setMode :: "int \<Rightarrow> 'l \<Rightarrow> 'l"
  lfo_setMode0Freq :: "real \<Rightarrow> ulong \<Rightarrow> 'l \<Rightarrow> 'l"
  lfo_setMode1Rate :: "real \<Rightarrow> 'l \<Rightarrow> 'l"
  lfo_setMode1Bpm :: "real \<Rightarrow> 'l \<Rightarrow> 'l"
  lfo_setMode1Phase :: "real \<Rightarrow> 'l \<Rightarrow> 'l"
  lfo_sync :: "ulong \<Rightarrow> 'l \<Rightarrow> 'l"
  lfo_getWave :: "ulong \<Rightarrow> 'l \<Rightarrow> int \<times> 'l"
  lfo_getWaveForm :: "'l \<Rightarrow> int"
  lfo_getMode :: "'l \<Rightarrow> int"
  lfo_getMode1Rate :: "'l \<Rightarrow> real"
  lfo_getPhase :: "'l \<Rightarrow> real"
  adsr_new :: "int \<Rightarrow> 'a"
  adsr_setAttack :: "int \<Rightarrow> 'a \<Rightarrow> 'a"
  adsr_setDecay :: "int \<Rightarrow> 'a \<Rightarrow> 'a"
  adsr_setSustain :: "real \<Rightarrow> 'a \<Rightarrow> 'a"
  adsr_setRelease :: "int \<Rightarrow> 'a \<Rightarrow> 'a"
  adsr_noteOn :: "ulong \<Rightarrow> 'a \<Rightarrow> 'a"
  adsr_noteOff :: "ulong \<Rightarrow> 'a \<Rightarrow> 'a"
  adsr_getWave :: "ulong \<Rightarrow> 'a \<Rightarrow> int \<times> 'a"
  arduino_map :: "int \<Rightarrow> int \<Rightarrow> int \<Rightarrow> int \<Rightarrow> int \<Rightarrow> int"
  arduino_round :: "real \<Rightarrow> int"
  math_pow :: "real \<Rightarrow> real \<Rightarrow> real"

subsection \<open>The state of the sketch\<close>

text \<open>
  The output pins: the value last given to \<^verbatim>\<open>analogWrite\<close> for the two DACs, and the
  level last given to \<^verbatim>\<open>digitalWrite\<close> for the digital pins, which is what
  \<^verbatim>\<open>digitalRead\<close> of a driven pin returns.
\<close>

record pins =
  DAC0 :: int
  DAC1 :: int
  SYNC_OUTPUT :: bool
  LED_DAC0 :: bool
  LED_DAC1 :: bool
  LED_SYNC :: bool
  LED_BUILTIN :: bool
  LED_MEASURE :: bool

text \<open>
  The globals, under their names in the sketch, the pins, and the bytes waiting in the
  receive buffer of \<^verbatim>\<open>Serial\<close>, oldest first.
\<close>

record ('l, 'a) state =
  bpm :: real
  dac0_ampl :: int
  dac0_adsr_enable :: bool
  dac1_ampl :: int
  dac1_adsr_enable :: bool
  sync_mode0_freq :: real
  sync_mode1_rate :: int
  sync_mode :: int
  sync_phase :: real
  rx_state :: int
  cc_sync :: byte
  cc_control :: byte
  cc_val1 :: byte
  cc_val2 :: byte
  t :: ulong
  sync_t0 :: ulong
  connected_t0 :: ulong
  dac0_lfo :: 'l
  dac1_lfo :: 'l
  adsr :: 'a
  pins :: pins
  serial_rx :: "byte list"

text \<open>The globals as their initialisers leave them, before \<^verbatim>\<open>setup()\<close> runs.\<close>

definition globals :: "('l, 'a) library \<Rightarrow> ('l, 'a) state" where
  "globals L =
     \<lparr>bpm = 120, dac0_ampl = 4095, dac0_adsr_enable = False,
      dac1_ampl = 4095, dac1_adsr_enable = False,
      sync_mode0_freq = 10, sync_mode1_rate = 15, sync_mode = 0, sync_phase = 0,
      rx_state = 0, cc_sync = 0, cc_control = 0, cc_val1 = 0, cc_val2 = 0,
      t = 0, sync_t0 = 0, connected_t0 = 0,
      dac0_lfo = lfo_new L DACSIZE, dac1_lfo = lfo_new L DACSIZE, adsr = adsr_new L DACSIZE,
      pins = \<lparr>DAC0 = 0, DAC1 = 0, SYNC_OUTPUT = False, LED_DAC0 = False, LED_DAC1 = False,
               LED_SYNC = False, LED_BUILTIN = False, LED_MEASURE = False\<rparr>,
      serial_rx = []\<rparr>"

text \<open>
  \<^verbatim>\<open>digitalWrite(pin, val)\<close> drives the pin high for every \<open>val\<close> but 0, and
  \<^verbatim>\<open>digitalRead(pin)\<close> is 1 for a high pin and 0 for a low one.
\<close>

definition digitalWrite ::
  "((bool \<Rightarrow> bool) \<Rightarrow> pins \<Rightarrow> pins) \<Rightarrow> int \<Rightarrow> ('l, 'a) state \<Rightarrow> ('l, 'a) state" where
  "digitalWrite pin val s = s\<lparr>pins := pin (\<lambda>_. val \<noteq> 0) (pins s)\<rparr>"

definition digitalRead :: "(pins \<Rightarrow> bool) \<Rightarrow> ('l, 'a) state \<Rightarrow> int" where
  "digitalRead pin s = (if pin (pins s) then 1 else 0)"

definition analogWrite ::
  "((int \<Rightarrow> int) \<Rightarrow> pins \<Rightarrow> pins) \<Rightarrow> int \<Rightarrow> ('l, 'a) state \<Rightarrow> ('l, 'a) state" where
  "analogWrite pin v s = s\<lparr>pins := pin (\<lambda>_. v) (pins s)\<rparr>"

text \<open>\<^verbatim>\<open>Serial.available()\<close> and \<^verbatim>\<open>Serial.read()\<close>, which is \<open>-1\<close> on an empty buffer.\<close>

definition Serial_available :: "('l, 'a) state \<Rightarrow> bool" where
  "Serial_available s = (serial_rx s \<noteq> [])"

definition Serial_read :: "('l, 'a) state \<Rightarrow> byte \<times> ('l, 'a) state" where
  "Serial_read s = (case serial_rx s of [] \<Rightarrow> (- 1, s) | b # bs \<Rightarrow> (b, s\<lparr>serial_rx := bs\<rparr>))"

text \<open>Bytes arriving on the serial line join the receive buffer.\<close>

definition serial_receive :: "byte list \<Rightarrow> ('l, 'a) state \<Rightarrow> ('l, 'a) state" where
  "serial_receive bs s = s\<lparr>serial_rx := serial_rx s @ bs\<rparr>"

subsection \<open>\<^verbatim>\<open>setup()\<close>\<close>

definition setup_sketch :: "('l, 'a) library \<Rightarrow> ('l, 'a) state \<Rightarrow> ('l, 'a) state" where
  "setup_sketch L s =
     (let s = s\<lparr>dac0_lfo := lfo_setAmpl L (dac0_ampl s) (dac0_lfo s)\<rparr>;
          s = s\<lparr>dac1_lfo := lfo_setAmpl L (dac1_ampl s) (dac1_lfo s)\<rparr>;
          s = s\<lparr>sync_t0 := t s\<rparr>;
          s = s\<lparr>connected_t0 := t s\<rparr>;
          s = digitalWrite SYNC_OUTPUT_update 0 s;
          s = digitalWrite LED_DAC0_update 0 s;
          s = digitalWrite LED_DAC1_update 0 s;
          s = digitalWrite LED_SYNC_update 0 s
      in digitalWrite LED_BUILTIN_update 0 s)"

text \<open>The sketch after reset: the initialised globals, then \<^verbatim>\<open>setup()\<close>.\<close>

definition power_on :: "('l, 'a) library \<Rightarrow> ('l, 'a) state" where
  "power_on L = setup_sketch L (globals L)"

subsection \<open>\<^verbatim>\<open>loop()\<close>: the two DACs\<close>

text \<open>
  The blink level \<^verbatim>\<open>round(x * 2) % 2\<close>: doubling is exact in binary floating point,
  \<^verbatim>\<open>round\<close> yields a \<^verbatim>\<open>long\<close> (its result is an operand of \<^verbatim>\<open>%\<close>).
\<close>

definition blink :: "('l, 'a) library \<Rightarrow> real \<Rightarrow> int" where
  "blink L x = c_rem (arduino_round L (x * 2)) 2"

definition write_dac0 :: "('l, 'a) library \<Rightarrow> ('l, 'a) state \<Rightarrow> ('l, 'a) state" where
  "write_dac0 L s =
     (let s =
        (if dac0_adsr_enable s = False then
           let s = s\<lparr>dac0_lfo := lfo_setAmpl L (dac0_ampl s) (dac0_lfo s)\<rparr>;
               (w, l) = lfo_getWave L (t s) (dac0_lfo s)
           in analogWrite DAC0_update w (s\<lparr>dac0_lfo := l\<rparr>)
         else if lfo_getWaveForm L (dac0_lfo s) = 0 then
           let (e, a) = adsr_getWave L (t s) (adsr s);
               (w, l) = lfo_getWave L (t s) (dac0_lfo s)
           in analogWrite DAC0_update (arduino_map L e 0 (DACSIZE - 1) w (DACSIZE - 1))
                (s\<lparr>adsr := a, dac0_lfo := l\<rparr>)
         else
           let (e, a) = adsr_getWave L (t s) (adsr s);
               s = s\<lparr>adsr := a\<rparr>;
               s = s\<lparr>dac0_lfo :=
                     lfo_setAmpl L (arduino_map L e 0 (DACSIZE - 1) 0 (dac0_ampl s)) (dac0_lfo s)\<rparr>;
               (w, l) = lfo_getWave L (t s) (dac0_lfo s)
           in analogWrite DAC0_update w (s\<lparr>dac0_lfo := l\<rparr>))
      in digitalWrite LED_DAC0_update (blink L (lfo_getPhase L (dac0_lfo s))) s)"

definition write_dac1 :: "('l, 'a) library \<Rightarrow> ('l, 'a) state \<Rightarrow> ('l, 'a) state" where
  "write_dac1 L s =
     (let s =
        (if dac1_adsr_enable s = False then
           let s = s\<lparr>dac1_lfo := lfo_setAmpl L (dac1_ampl s) (dac1_lfo s)\<rparr>;
               (w, l) = lfo_getWave L (t s) (dac1_lfo s)
           in analogWrite DAC1_update w (s\<lparr>dac1_lfo := l\<rparr>)
         else if lfo_getWaveForm L (dac1_lfo s) = 0 then
           let (e, a) = adsr_getWave L (t s) (adsr s);
               (w, l) = lfo_getWave L (t s) (dac1_lfo s)
           in analogWrite DAC1_update (arduino_map L e 0 (DACSIZE - 1) w (DACSIZE - 1))
                (s\<lparr>adsr := a, dac1_lfo := l\<rparr>)
         else
           let (e, a) = adsr_getWave L (t s) (adsr s);
               s = s\<lparr>adsr := a\<rparr>;
               s = s\<lparr>dac1_lfo :=
                     lfo_setAmpl L (arduino_map L e 0 (DACSIZE - 1) 0 (dac1_ampl s)) (dac1_lfo s)\<rparr>;
               (w, l) = lfo_getWave L (t s) (dac1_lfo s)
           in analogWrite DAC1_update w (s\<lparr>dac1_lfo := l\<rparr>))
      in digitalWrite LED_DAC1_update (blink L (lfo_getPhase L (dac1_lfo s))) s)"

subsection \<open>\<^verbatim>\<open>loop()\<close>: the sync port\<close>

text \<open>
  The local \<^verbatim>\<open>phase\<close> starts at 0; each of the two modes computes it and writes the
  sync output; the LED is written from \<^verbatim>\<open>phase\<close> after the \<^verbatim>\<open>if\<close>.
\<close>

definition sync_phase_now :: "('l, 'a) library \<Rightarrow> ('l, 'a) state \<Rightarrow> error + real \<times> ('l, 'a) state" where
  "sync_phase_now L s =
     (if sync_mode s = 0 then
        let phase = f64_div (f64_mul (real (unat (t s))) (sync_mode0_freq s)) 1000000
        in Inr (phase, digitalWrite SYNC_OUTPUT_update (blink L phase) s)
      else if sync_mode s = 1 then
        (case freqArray_at (sync_mode1_rate s) of
           None \<Rightarrow> Inl TableIndexOutOfRange
         | Some rate \<Rightarrow>
             let phase =
                   f64_add
                     (f64_div (f64_mul (f64_mul (real (unat (t s - sync_t0 s))) rate) (bpm s))
                        60000000)
                     (sync_phase s)
             in Inr (phase, digitalWrite SYNC_OUTPUT_update (blink L phase) s))
      else Inr (0, s))"

definition write_sync :: "('l, 'a) library \<Rightarrow> ('l, 'a) state \<Rightarrow> error + ('l, 'a) state" where
  "write_sync L s =
     (case sync_phase_now L s of
        Inl e \<Rightarrow> Inl e
      | Inr (phase, s) \<Rightarrow> Inr (digitalWrite LED_SYNC_update (blink L phase) s))"

subsection \<open>\<^verbatim>\<open>loop()\<close>: the timeout LED\<close>

definition timeout_led :: "('l, 'a) state \<Rightarrow> ('l, 'a) state" where
  "timeout_led s =
     (if digitalRead LED_BUILTIN s \<noteq> 0 then
        (if CONNECTED_TIMEOUT < t s - connected_t0 s then digitalWrite LED_BUILTIN_update 0 s
         else s)
      else s)"

subsection \<open>\<^verbatim>\<open>loop()\<close>: the commands\<close>

text \<open>
  The test \<^verbatim>\<open>(int)(10*(value-1)/rate)%10 == 0\<close> of a measure command: the \<^verbatim>\<open>int\<close>
  \<open>10 * (value - 1)\<close> becomes a \<^verbatim>\<open>float\<close> (exactly, it is below \<open>2 ^ 24\<close>), the quotient
  is a \<^verbatim>\<open>float\<close> and is truncated to \<^verbatim>\<open>int\<close>.
\<close>

definition measure_gate :: "int \<Rightarrow> real \<Rightarrow> error + bool" where
  "measure_gate val rate =
     (if rate = 0 then Inl FloatToIntOutOfRange
      else case float_to_int (f32_div (of_int (10 * (val - 1))) rate) of
             Inl e \<Rightarrow> Inl e
           | Inr q \<Rightarrow> Inr (c_rem q 10 = 0))"

text \<open>
  \<^verbatim>\<open>if (lfo.getMode() and (int)(10*(value-1)/lfo.getMode1Rate())%10 == 0)\<close>: the
  right operand is evaluated only when the mode is not 0.
\<close>

definition lfo_gate :: "('l, 'a) library \<Rightarrow> int \<Rightarrow> 'l \<Rightarrow> error + bool" where
  "lfo_gate L val l =
     (if lfo_getMode L l \<noteq> 0 then measure_gate val (lfo_getMode1Rate L l) else Inr False)"

definition song_measure ::
  "('l, 'a) library \<Rightarrow> int \<Rightarrow> ('l, 'a) state \<Rightarrow> error + ('l, 'a) state" where
  "song_measure L val s =
     (if val \<noteq> 0 then
        (case lfo_gate L val (dac0_lfo s) of
           Inl e \<Rightarrow> Inl e
         | Inr g0 \<Rightarrow>
             let s = (if g0 then s\<lparr>dac0_lfo := lfo_sync L (t s) (dac0_lfo s)\<rparr> else s) in
             (case lfo_gate L val (dac1_lfo s) of
                Inl e \<Rightarrow> Inl e
              | Inr g1 \<Rightarrow>
                  let s = (if g1 then s\<lparr>dac1_lfo := lfo_sync L (t s) (dac1_lfo s)\<rparr> else s) in
                  (case freqArray_at (sync_mode1_rate s) of
                     None \<Rightarrow> Inl TableIndexOutOfRange
                   | Some rate \<Rightarrow>
                       (case measure_gate val rate of
                          Inl e \<Rightarrow> Inl e
                        | Inr g \<Rightarrow>
                            let s = (if g then s\<lparr>sync_t0 := t s\<rparr> else s) in
                            Inr (digitalWrite LED_MEASURE_update
                                   (if digitalRead LED_MEASURE s = 0 then 1 else 0) s)))))
      else Inr s)"

text \<open>The phase of a phase command: \<^verbatim>\<open>(360 - (float)value) / 360\<close>.\<close>

definition phase_of :: "int \<Rightarrow> real" where
  "phase_of val = f32_div (f32_sub 360 (of_int val)) 360"

text \<open>
  The sustain level of a sustain command:
  \<^verbatim>\<open>pow(10, -1*(float)value/1000)*(DACSIZE - 1)\<close>, the exponent a \<^verbatim>\<open>float\<close>, the power and
  the product \<^verbatim>\<open>double\<close>.
\<close>

definition sustain_of :: "('l, 'a) library \<Rightarrow> int \<Rightarrow> real" where
  "sustain_of L val =
     f64_mul (math_pow L 10 (f32_div (f32_mul (- 1) (of_int val)) 1000)) (of_int (DACSIZE - 1))"

text \<open>
  The chain of \<^verbatim>\<open>if\<close>/\<^verbatim>\<open>else if\<close> on \<^verbatim>\<open>cc_control\<close>, in the order of the sketch; it has
  no final \<^verbatim>\<open>else\<close>.
\<close>

definition dispatch ::
  "('l, 'a) library \<Rightarrow> int \<Rightarrow> ('l, 'a) state \<Rightarrow> error + ('l, 'a) state" where
  "dispatch L val s =
     (let c = uint (cc_control s) in
      if c = ID_SONG_BPM then
        let s = s\<lparr>bpm := f32_div (of_int val) 10\<rparr>;
            s = s\<lparr>dac0_lfo := lfo_setMode1Bpm L (bpm s) (dac0_lfo s)\<rparr>
        in Inr (s\<lparr>dac1_lfo := lfo_setMode1Bpm L (bpm s) (dac1_lfo s)\<rparr>)
      else if c = ID_SONG_MEASURE then song_measure L val s
      else if c = ID_DAC0_MODE then Inr (s\<lparr>dac0_lfo := lfo_setMode L val (dac0_lfo s)\<rparr>)
      else if c = ID_DAC0_MODE0_FREQ then
        Inr (s\<lparr>dac0_lfo := lfo_setMode0Freq L (f32_div (of_int val) 100) (t s) (dac0_lfo s)\<rparr>)
      else if c = ID_DAC0_MODE1_RATE then
        (case freqArray_at val of
           None \<Rightarrow> Inl TableIndexOutOfRange
         | Some rate \<Rightarrow> Inr (s\<lparr>dac0_lfo := lfo_setMode1Rate L rate (dac0_lfo s)\<rparr>))
      else if c = ID_DAC0_AMPL then
        let s = s\<lparr>dac0_ampl := val\<rparr>
        in Inr (s\<lparr>dac0_lfo := lfo_setAmpl L (dac0_ampl s) (dac0_lfo s)\<rparr>)
      else if c = ID_DAC0_AMPL_OFFSET then
        Inr (s\<lparr>dac0_lfo := lfo_setAmplOffset L val (dac0_lfo s)\<rparr>)
      else if c = ID_DAC0_WAVEFORM then
        Inr (s\<lparr>dac0_lfo := lfo_setWaveForm L val (dac0_lfo s)\<rparr>)
      else if c = ID_DAC0_PHASE then
        Inr (s\<lparr>dac0_lfo := lfo_setMode1Phase L (phase_of val) (dac0_lfo s)\<rparr>)
      else if c = ID_DAC0_ADSR_ENABLE then Inr (s\<lparr>dac0_adsr_enable := (val \<noteq> 0)\<rparr>)
      else if c = ID_DAC1_MODE then Inr (s\<lparr>dac1_lfo := lfo_setMode L val (dac1_lfo s)\<rparr>)
      else if c = ID_DAC1_MODE0_FREQ then
        Inr (s\<lparr>dac1_lfo := lfo_setMode0Freq L (f32_div (of_int val) 100) (t s) (dac1_lfo s)\<rparr>)
      else if c = ID_DAC1_MODE1_RATE then
        (case freqArray_at val of
           None \<Rightarrow> Inl TableIndexOutOfRange
         | Some rate \<Rightarrow> Inr (s\<lparr>dac1_lfo := lfo_setMode1Rate L rate (dac1_lfo s)\<rparr>))
      else if c = ID_DAC1_AMPL then
        let s = s\<lparr>dac1_ampl := val\<rparr>
        in Inr (s\<lparr>dac1_lfo := lfo_setAmpl L (dac1_ampl s) (dac1_lfo s)\<rparr>)
      else if c = ID_DAC1_AMPL_OFFSET then
        Inr (s\<lparr>dac1_lfo := lfo_setAmplOffset L val (dac1_lfo s)\<rparr>)
      else if c = ID_DAC1_WAVEFORM then
        Inr (s\<lparr>dac1_lfo := lfo_setWaveForm L val (dac1_lfo s)\<rparr>)
      else if c = ID_DAC1_PHASE then
        Inr (s\<lparr>dac1_lfo := lfo_setMode1Phase L (phase_of val) (dac1_lfo s)\<rparr>)
      else if c = ID_DAC1_ADSR_ENABLE then Inr (s\<lparr>dac1_adsr_enable := (val \<noteq> 0)\<rparr>)
      else if c = ID_ADSR_ATTACK then Inr (s\<lparr>adsr := adsr_setAttack L (1000 * val) (adsr s)\<rparr>)
      else if c = ID_ADSR_DECAY then Inr (s\<lparr>adsr := adsr_setDecay L (1000 * val) (adsr s)\<rparr>)
      else if c = ID_ADSR_SUSTAIN then
        Inr (s\<lparr>adsr := adsr_setSustain L (sustain_of L val) (adsr s)\<rparr>)
      else if c = ID_ADSR_RELEASE then
        Inr (s\<lparr>adsr := adsr_setRelease L (1000 * val) (adsr s)\<rparr>)
      else if c = ID_ADSR_TRIGGER then
        (if val = 1 then Inr (s\<lparr>adsr := adsr_noteOn L (t s) (adsr s)\<rparr>)
         else if val = 0 then Inr (s\<lparr>adsr := adsr_noteOff L (t s) (adsr s)\<rparr>)
         else Inr s)
      else if c = ID_SYNC_MODE then Inr (s\<lparr>sync_mode := val\<rparr>)
      else if c = ID_SYNC_MODE0_FREQ then Inr (s\<lparr>sync_mode0_freq := f32_div (of_int val) 100\<rparr>)
      else if c = ID_SYNC_MODE1_RATE then Inr (s\<lparr>sync_mode1_rate := val\<rparr>)
      else if c = ID_SYNC_PHASE then Inr (s\<lparr>sync_phase := phase_of val\<rparr>)
      else Inr s)"

subsection \<open>\<^verbatim>\<open>loop()\<close>: the receiver\<close>

text \<open>
  The \<^verbatim>\<open>switch (rx_state)\<close>, entered after \<^verbatim>\<open>rx_state++\<close>: each of its four cases reads
  one byte; the fourth completes a frame and yields its value. No case matches another
  \<^verbatim>\<open>rx_state\<close>, and then no byte is read.
\<close>

definition rx_switch :: "('l, 'a) state \<Rightarrow> ('l, 'a) state \<times> int option" where
  "rx_switch s =
     (if rx_state s = 1 then
        let (b, s) = Serial_read s;
            s = s\<lparr>cc_sync := b\<rparr>
        in (if cc_sync s \<noteq> 255 then s\<lparr>rx_state := 0\<rparr> else s, None)
      else if rx_state s = 2 then
        let (b, s) = Serial_read s in (s\<lparr>cc_control := b\<rparr>, None)
      else if rx_state s = 3 then
        let (b, s) = Serial_read s in (s\<lparr>cc_val1 := b\<rparr>, None)
      else if rx_state s = 4 then
        let (b, s) = Serial_read s;
            s = s\<lparr>cc_val2 := b\<rparr>;
            s = s\<lparr>rx_state := 0\<rparr>
        in (s, Some (getInt (uint (cc_val1 s)) (uint (cc_val2 s))))
      else (s, None))"

definition serial_block :: "('l, 'a) library \<Rightarrow> ('l, 'a) state \<Rightarrow> error + ('l, 'a) state" where
  "serial_block L s =
     (if Serial_available s then
        let s = s\<lparr>connected_t0 := t s\<rparr>;
            s = (if digitalRead LED_BUILTIN s = 0 then digitalWrite LED_BUILTIN_update 1 s else s);
            s = s\<lparr>rx_state := rx_state s + 1\<rparr>;
            (s, frame) = rx_switch s
        in (case frame of None \<Rightarrow> Inr s | Some val \<Rightarrow> dispatch L val s)
      else Inr s)"

subsection \<open>\<^verbatim>\<open>loop()\<close>\<close>

text \<open>One call of \<^verbatim>\<open>loop()\<close>, in which \<^verbatim>\<open>micros()\<close> returns \<open>now\<close>.\<close>

definition loop :: "('l, 'a) library \<Rightarrow> ulong \<Rightarrow> ('l, 'a) state \<Rightarrow> error + ('l, 'a) state" where
  "loop L now s =
     (let s = s\<lparr>t := now\<rparr>;
          s = write_dac0 L s;
          s = write_dac1 L s
      in case write_sync L s of
           Inl e \<Rightarrow> Inl e
         | Inr s \<Rightarrow> serial_block L (timeout_led s))"

text \<open>
  A run of the sketch: for each call of \<^verbatim>\<open>loop()\<close>, the bytes that arrived since the
  call before it and the timestamp the call takes. An error ends the run.
\<close>

fun run ::
  "('l, 'a) library \<Rightarrow> (byte list \<times> ulong) list \<Rightarrow> ('l, 'a) state \<Rightarrow> error + ('l, 'a) state" where
  "run L [] s = Inr s"
| "run L ((bs, now) # es) s =
     (case loop L now (serial_receive bs s) of
        Inl e \<Rightarrow> Inl e
      | Inr s' \<Rightarrow> run L es s')"

subsection \<open>Frames completed during a run\<close>

text \<open>
  A call of \<^verbatim>\<open>loop()\<close> completes a frame when the receiver holds three bytes of it
  and a fourth one is waiting: this is the control id and the value it dispatches.
\<close>

definition completes_frame :: "('l, 'a) state \<Rightarrow> (int \<times> int) option" where
  "completes_frame s =
     (case serial_rx s of
        [] \<Rightarrow> None
      | b # bs \<Rightarrow>
          if rx_state s = 3 then Some (uint (cc_control s), getInt (uint (cc_val1 s)) (uint b))
          else None)"

text \<open>The value of a tempo-rate command (controls 222, 232 and 242) is at most 23.\<close>

definition rate_index_ok :: "(int \<times> int) option \<Rightarrow> bool" where
  "rate_index_ok f =
     (case f of
        None \<Rightarrow> True
      | Some (c, v) \<Rightarrow> if c = 222 \<or> c = 232 \<or> c = 242 then v \<le> 23 else True)"

text \<open>Every tempo-rate command completed during a run has a value of at most 23.\<close>

fun rate_indices_ok ::
  "('l, 'a) library \<Rightarrow> (byte list \<times> ulong) list \<Rightarrow> ('l, 'a) state \<Rightarrow> bool" where
  "rate_indices_ok L [] s = True"
| "rate_indices_ok L ((bs, now) # es) s =
     (rate_index_ok (completes_frame (serial_receive bs s)) \<and>
      (case loop L now (serial_receive bs s) of
         Inl e \<Rightarrow> True
       | Inr s' \<Rightarrow> rate_indices_ok L es s'))"

subsection \<open>A stand-in for the libraries\<close>

text \<open>
  The theorems below hold for every library. Closed examples need one: an oscillator
  that holds a level (its offset for the DC waveform 0, as the comment in the sketch
  says of \<^verbatim>\<open>getWave\<close>, its amplitude otherwise), an envelope that holds a level, and
  the \<^verbatim>\<open>map\<close> function and the \<^verbatim>\<open>round\<close> macro of the Arduino core:
  \<^verbatim>\<open>(x - in_min) * (out_max - out_min) / (in_max - in_min) + out_min\<close> and
  \<^verbatim>\<open>((x)>=0?(long)((x)+0.5):(long)((x)-0.5))\<close>.
\<close>

record lfo_model =
  lm_ampl :: int
  lm_ampl_offset :: int
  lm_waveForm :: int
  lm_mode :: int
  lm_mode0_freq :: real
  lm_mode1_rate :: real
  lm_mode1_bpm :: real
  lm_mode1_phase :: real
  lm_t0 :: ulong

record adsr_model =
  am_attack :: int
  am_decay :: int
  am_sustain :: real
  am_release :: int
  am_level :: int
  am_t0 :: ulong

definition due_map :: "int \<Rightarrow> int \<Rightarrow> int \<Rightarrow> int \<Rightarrow> int \<Rightarrow> int" where
  "due_map x in_min in_max out_min out_max =
     c_div ((x - in_min) * (out_max - out_min)) (in_max - in_min) + out_min"

definition due_round :: "real \<Rightarrow> int" where
  "due_round x = (if 0 \<le> x then c_trunc (f64_add x (1 / 2)) else c_trunc (f64_add x (- (1 / 2))))"

definition due :: "(lfo_model, adsr_model) library" where
  "due =
     \<lparr>lfo_new = (\<lambda>n. \<lparr>lm_ampl = n - 1, lm_ampl_offset = 0, lm_waveForm = 0, lm_mode = 0,
                       lm_mode0_freq = 1, lm_mode1_rate = 1, lm_mode1_bpm = 120,
                       lm_mode1_phase = 0, lm_t0 = 0\<rparr>),
      lfo_setAmpl = (\<lambda>v l. l\<lparr>lm_ampl := v\<rparr>),
      lfo_setAmplOffset = (\<lambda>v l. l\<lparr>lm_ampl_offset := v\<rparr>),
      lfo_setWaveForm = (\<lambda>v l. l\<lparr>lm_waveForm := v\<rparr>),
      lfo_setMode = (\<lambda>v l. l\<lparr>lm_mode := v\<rparr>),
      lfo_setMode0Freq = (\<lambda>f now l. l\<lparr>lm_mode0_freq := f\<rparr>),
      lfo_setMode1Rate = (\<lambda>r l. l\<lparr>lm_mode1_rate := r\<rparr>),
      lfo_setMode1Bpm = (\<lambda>b l. l\<lparr>lm_mode1_bpm := b\<rparr>),
      lfo_setMode1Phase = (\<lambda>p l. l\<lparr>lm_mode1_phase := p\<rparr>),
      lfo_sync = (\<lambda>now l. l\<lparr>lm_t0 := now\<rparr>),
      lfo_getWave = (\<lambda>now l. (if lm_waveForm l = 0 then lm_ampl_offset l else lm_ampl l, l)),
      lfo_getWaveForm = lm_waveForm,
      lfo_getMode = lm_mode,
      lfo_getMode1Rate = lm_mode1_rate,
      lfo_getPhase = lm_mode1_phase,
      adsr_new = (\<lambda>n. \<lparr>am_attack = 0, am_decay = 0, am_sustain = 0, am_release = 0,
                        am_level = 0, am_t0 = 0\<rparr>),
      adsr_setAttack = (\<lambda>v a. a\<lparr>am_attack := v\<rparr>),
      adsr_setDecay = (\<lambda>v a. a\<lparr>am_decay := v\<rparr>),
      adsr_setSustain = (\<lambda>v a. a\<lparr>am_sustain := v\<rparr>),
      adsr_setRelease = (\<lambda>v a. a\<lparr>am_release := v\<rparr>),
      adsr_noteOn = (\<lambda>now a. a\<lparr>am_level := DACSIZE - 1, am_t0 := now\<rparr>),
      adsr_noteOff = (\<lambda>now a. a\<lparr>am_level := 0, am_t0 := now\<rparr>),
      adsr_getWave = (\<lambda>now a. (am_level a, a)),
      arduino_map = due_map,
      arduino_round = due_round,
      math_pow = (\<lambda>x y. x powr y)\<rparr>"

text \<open>
  An example state: after reset, with both oscillators in tempo mode at rate 4 (table
  entry 9), the control byte of a measure command received, and the timestamp 777.
\<close>

definition tempo_rate4 :: "(lfo_model, adsr_model) state" where
  "tempo_rate4 =
     (power_on due)
       \<lparr>cc_control := 251, t := 777,
        dac0_lfo := (dac0_lfo (power_on due))\<lparr>lm_mode := 1, lm_mode1_rate := 4\<rparr>,
        dac1_lfo := (dac1_lfo (power_on due))\<lparr>lm_mode := 1, lm_mode1_rate := 4\<rparr>\<rparr>"

text \<open>
  An example state: after reset, with envelope modulation enabled on both channels, the
  DC waveform, the DC level (amplitude offset) 1000 and an envelope that holds 2048.
\<close>

definition dc_envelope :: "(lfo_model, adsr_model) state" where
  "dc_envelope =
     (power_on due)
       \<lparr>dac0_adsr_enable := True, dac1_adsr_enable := True,
        dac0_lfo := (dac0_lfo (power_on due))\<lparr>lm_ampl_offset := 1000\<rparr>,
        dac1_lfo := (dac1_lfo (power_on due))\<lparr>lm_ampl_offset := 1000\<rparr>,
        adsr := (adsr (power_on due))\<lparr>am_level := 2048\<rparr>\<rparr>"

section \<open>Facts about the embedding\<close>

subsection \<open>Evaluation\<close>

text \<open>
  The equations that evaluate the arithmetic on numerals, one call of \<^verbatim>\<open>loop()\<close> on a
  given state, and the stand-in library.
\<close>

lemmas float_eval = f32_sub_def f32_mul_def f32_div_def f64_add_def f64_mul_def f64_div_def
  float_literal_def fround_def ilog2_def compute_floorlog rne_def pow2_def

lemmas c_eval = c_rem_def c_div_def c_trunc_def float_to_int_def

lemma loop_eq:
  "loop L now s =
     (case write_sync L (write_dac1 L (write_dac0 L (s\<lparr>t := now\<rparr>))) of
        Inl e \<Rightarrow> Inl e
      | Inr s1 \<Rightarrow> serial_block L (timeout_led s1))"
  by (simp add: loop_def)

lemmas step_eqs = loop_eq write_dac0_def write_dac1_def write_sync_def sync_phase_now_def
  timeout_led_def serial_block_def rx_switch_def Serial_read_def Serial_available_def
  serial_receive_def digitalWrite_def digitalRead_def analogWrite_def Let_def

lemma due_simps:
  "lfo_new due = (\<lambda>n. \<lparr>lm_ampl = n - 1, lm_ampl_offset = 0, lm_waveForm = 0, lm_mode = 0,
                       lm_mode0_freq = 1, lm_mode1_rate = 1, lm_mode1_bpm = 120,
                       lm_mode1_phase = 0, lm_t0 = 0\<rparr>)"
  "lfo_setAmpl due = (\<lambda>v l. l\<lparr>lm_ampl := v\<rparr>)"
  "lfo_setAmplOffset due = (\<lambda>v l. l\<lparr>lm_ampl_offset := v\<rparr>)"
  "lfo_setWaveForm due = (\<lambda>v l. l\<lparr>lm_waveForm := v\<rparr>)"
  "lfo_setMode due = (\<lambda>v l. l\<lparr>lm_mode := v\<rparr>)"
  "lfo_setMode0Freq due = (\<lambda>f now l. l\<lparr>lm_mode0_freq := f\<rparr>)"
  "lfo_setMode1Rate due = (\<lambda>r l. l\<lparr>lm_mode1_rate := r\<rparr>)"
  "lfo_setMode1Bpm due = (\<lambda>b l. l\<lparr>lm_mode1_bpm := b\<rparr>)"
  "lfo_setMode1Phase due = (\<lambda>p l. l\<lparr>lm_mode1_phase := p\<rparr>)"
  "lfo_sync due = (\<lambda>now l. l\<lparr>lm_t0 := now\<rparr>)"
  "lfo_getWave due = (\<lambda>now l. (if lm_waveForm l = 0 then lm_ampl_offset l else lm_ampl l, l))"
  "lfo_getWaveForm due = lm_waveForm"
  "lfo_getMode due = lm_mode"
  "lfo_getMode1Rate due = lm_mode1_rate"
  "lfo_getPhase due = lm_mode1_phase"
  "adsr_new due = (\<lambda>n. \<lparr>am_attack = 0, am_decay = 0, am_sustain = 0, am_release = 0,
                        am_level = 0, am_t0 = 0\<rparr>)"
  "adsr_setAttack due = (\<lambda>v a. a\<lparr>am_attack := v\<rparr>)"
  "adsr_setDecay due = (\<lambda>v a. a\<lparr>am_decay := v\<rparr>)"
  "adsr_setSustain due = (\<lambda>v a. a\<lparr>am_sustain := v\<rparr>)"
  "adsr_setRelease due = (\<lambda>v a. a\<lparr>am_release := v\<rparr>)"
  "adsr_noteOn due = (\<lambda>now a. a\<lparr>am_level := DACSIZE - 1, am_t0 := now\<rparr>)"
  "adsr_noteOff due = (\<lambda>now a. a\<lparr>am_level := 0, am_t0 := now\<rparr>)"
  "adsr_getWave due = (\<lambda>now a. (am_level a, a))"
  "arduino_map due = due_map"
  "arduino_round due = due_round"
  "math_pow due = (\<lambda>x y. x powr y)"
  by (simp_all add: due_def)

lemma power_on_due:
  "power_on due =
     \<lparr>bpm = 120, dac0_ampl = 4095, dac0_adsr_enable = False,
      dac1_ampl = 4095, dac1_adsr_enable = False,
      sync_mode0_freq = 10, sync_mode1_rate = 15, sync_mode = 0, sync_phase = 0,
      rx_state = 0, cc_sync = 0, cc_control = 0, cc_val1 = 0, cc_val2 = 0,
      t = 0, sync_t0 = 0, connected_t0 = 0,
      dac0_lfo =
        \<lparr>lm_ampl = 4095, lm_ampl_offset = 0, lm_waveForm = 0, lm_mode = 0,
         lm_mode0_freq = 1, lm_mode1_rate = 1, lm_mode1_bpm = 120,
         lm_mode1_phase = 0, lm_t0 = 0\<rparr>,
      dac1_lfo =
        \<lparr>lm_ampl = 4095, lm_ampl_offset = 0, lm_waveForm = 0, lm_mode = 0,
         lm_mode0_freq = 1, lm_mode1_rate = 1, lm_mode1_bpm = 120,
         lm_mode1_phase = 0, lm_t0 = 0\<rparr>,
      adsr =
        \<lparr>am_attack = 0, am_decay = 0, am_sustain = 0, am_release = 0,
         am_level = 0, am_t0 = 0\<rparr>,
      pins =
        \<lparr>DAC0 = 0, DAC1 = 0, SYNC_OUTPUT = False, LED_DAC0 = False, LED_DAC1 = False,
         LED_SYNC = False, LED_BUILTIN = False, LED_MEASURE = False\<rparr>,
      serial_rx = []\<rparr>"
  by (simp add: power_on_def setup_sketch_def globals_def due_simps digitalWrite_def Let_def)

text \<open>The table as the compiler stores it: each literal rounded to \<^verbatim>\<open>float\<close>.\<close>

lemma freqArray_values:
  "freqArray =
     [64, 48, 32, 24, 16, 12, 8, 6, 11184741 / 2097152, 4, 13421773 / 4194304,
      3, 11186209 / 4194304, 2, 5591007 / 4194304, 1, 11190403 / 16777216,
      1 / 2, 5586813 / 16777216, 1 / 4, 2801795 / 16777216, 1 / 8, 1 / 16, 1 / 32]"
  by (simp add: freqArray_def float_eval)


subsection \<open>The frame value\<close>

lemma sint_small: "sint (word_of_int k :: 32 word) = k" if "0 \<le> k" "k < 65536" for k :: int
  unfolding sint_sbintrunc' by (rule signed_take_bit_int_eq_self) (use that in simp_all)

text \<open>On two bytes \<^verbatim>\<open>getInt\<close> is the 16-bit value \<open>high * 256 + low\<close>.\<close>

lemma getInt_bytes: "getInt (uint (h::byte)) (uint (l::byte)) = uint h * 256 + uint l"
proof -
  have h: "uint h < 256" using uint_lt2p [of h] by simp
  have l: "uint l < 256" using uint_lt2p [of l] by simp
  have lo: "0 \<le> uint h * 256 + uint l" by simp
  have hi: "uint h * 256 + uint l < 65536" using h l by linarith
  have eq: "push_bit 8 (word_of_int (uint h) :: 32 word) + word_of_int (uint l)
     = word_of_int (uint h * 256 + uint l)"
    by (simp add: push_bit_eq_mult)
  show ?thesis unfolding getInt_def eq by (rule sint_small [OF lo hi])
qed

lemma getInt_range:
  "0 \<le> getInt (uint (h::byte)) (uint (l::byte))"
  "getInt (uint (h::byte)) (uint (l::byte)) \<le> 65535"
proof -
  have h: "uint h < 256" using uint_lt2p [of h] by simp
  have l: "uint l < 256" using uint_lt2p [of l] by simp
  show "0 \<le> getInt (uint h) (uint l)" by (simp add: getInt_bytes)
  show "getInt (uint h) (uint l) \<le> 65535" using h l by (simp add: getInt_bytes)
qed

subsection \<open>The command chain, one control id at a time\<close>

lemma dispatch_unassigned:
  assumes "uint (cc_control s) \<noteq> 250" "uint (cc_control s) \<noteq> 251"
    "uint (cc_control s) \<noteq> 230" "uint (cc_control s) \<noteq> 231" "uint (cc_control s) \<noteq> 232"
    "uint (cc_control s) \<noteq> 234" "uint (cc_control s) \<noteq> 235" "uint (cc_control s) \<noteq> 233"
    "uint (cc_control s) \<noteq> 236" "uint (cc_control s) \<noteq> 237"
    "uint (cc_control s) \<noteq> 240" "uint (cc_control s) \<noteq> 241" "uint (cc_control s) \<noteq> 242"
    "uint (cc_control s) \<noteq> 244" "uint (cc_control s) \<noteq> 245" "uint (cc_control s) \<noteq> 243"
    "uint (cc_control s) \<noteq> 246" "uint (cc_control s) \<noteq> 247"
    "uint (cc_control s) \<noteq> 210" "uint (cc_control s) \<noteq> 211" "uint (cc_control s) \<noteq> 212"
    "uint (cc_control s) \<noteq> 213" "uint (cc_control s) \<noteq> 214"
    "uint (cc_control s) \<noteq> 220" "uint (cc_control s) \<noteq> 221" "uint (cc_control s) \<noteq> 222"
    "uint (cc_control s) \<noteq> 226"
  shows "dispatch L val s = Inr s"
  unfolding dispatch_def Let_def by (simp only: assms if_False)

lemma dispatch_eqs:
  "uint (cc_control s) = 250 \<Longrightarrow> dispatch L val s =
     Inr (s\<lparr>bpm := f32_div (of_int val) 10,
            dac0_lfo := lfo_setMode1Bpm L (f32_div (of_int val) 10) (dac0_lfo s),
            dac1_lfo := lfo_setMode1Bpm L (f32_div (of_int val) 10) (dac1_lfo s)\<rparr>)"
  "uint (cc_control s) = 251 \<Longrightarrow> dispatch L val s = song_measure L val s"
  "uint (cc_control s) = 230 \<Longrightarrow> dispatch L val s = Inr (s\<lparr>dac0_lfo := lfo_setMode L val (dac0_lfo s)\<rparr>)"
  "uint (cc_control s) = 231 \<Longrightarrow> dispatch L val s =
     Inr (s\<lparr>dac0_lfo := lfo_setMode0Freq L (f32_div (of_int val) 100) (t s) (dac0_lfo s)\<rparr>)"
  "uint (cc_control s) = 232 \<Longrightarrow> dispatch L val s =
     (case freqArray_at val of None \<Rightarrow> Inl TableIndexOutOfRange
      | Some rate \<Rightarrow> Inr (s\<lparr>dac0_lfo := lfo_setMode1Rate L rate (dac0_lfo s)\<rparr>))"
  "uint (cc_control s) = 234 \<Longrightarrow> dispatch L val s =
     Inr (s\<lparr>dac0_ampl := val, dac0_lfo := lfo_setAmpl L val (dac0_lfo s)\<rparr>)"
  "uint (cc_control s) = 235 \<Longrightarrow> dispatch L val s = Inr (s\<lparr>dac0_lfo := lfo_setAmplOffset L val (dac0_lfo s)\<rparr>)"
  "uint (cc_control s) = 233 \<Longrightarrow> dispatch L val s = Inr (s\<lparr>dac0_lfo := lfo_setWaveForm L val (dac0_lfo s)\<rparr>)"
  "uint (cc_control s) = 236 \<Longrightarrow> dispatch L val s =
     Inr (s\<lparr>dac0_lfo := lfo_setMode1Phase L (phase_of val) (dac0_lfo s)\<rparr>)"
  "uint (cc_control s) = 237 \<Longrightarrow> dispatch L val s = Inr (s\<lparr>dac0_adsr_enable := (val \<noteq> 0)\<rparr>)"
  "uint (cc_control s) = 240 \<Longrightarrow> dispatch L val s = Inr (s\<lparr>dac1_lfo := lfo_setMode L val (dac1_lfo s)\<rparr>)"
  "uint (cc_control s) = 241 \<Longrightarrow> dispatch L val s =
     Inr (s\<lparr>dac1_lfo := lfo_setMode0Freq L (f32_div (of_int val) 100) (t s) (dac1_lfo s)\<rparr>)"
  "uint (cc_control s) = 242 \<Longrightarrow> dispatch L val s =
     (case freqArray_at val of None \<Rightarrow> Inl TableIndexOutOfRange
      | Some rate \<Rightarrow> Inr (s\<lparr>dac1_lfo := lfo_setMode1Rate L rate (dac1_lfo s)\<rparr>))"
  "uint (cc_control s) = 244 \<Longrightarrow> dispatch L val s =
     Inr (s\<lparr>dac1_ampl := val, dac1_lfo := lfo_setAmpl L val (dac1_lfo s)\<rparr>)"
  "uint (cc_control s) = 245 \<Longrightarrow> dispatch L val s = Inr (s\<lparr>dac1_lfo := lfo_setAmplOffset L val (dac1_lfo s)\<rparr>)"
  "uint (cc_control s) = 243 \<Longrightarrow> dispatch L val s = Inr (s\<lparr>dac1_lfo := lfo_setWaveForm L val (dac1_lfo s)\<rparr>)"
  "uint (cc_control s) = 246 \<Longrightarrow> dispatch L val s =
     Inr (s\<lparr>dac1_lfo := lfo_setMode1Phase L (phase_of val) (dac1_lfo s)\<rparr>)"
  "uint (cc_control s) = 247 \<Longrightarrow> dispatch L val s = Inr (s\<lparr>dac1_adsr_enable := (val \<noteq> 0)\<rparr>)"
  "uint (cc_control s) = 210 \<Longrightarrow> dispatch L val s = Inr (s\<lparr>adsr := adsr_setAttack L (1000 * val) (adsr s)\<rparr>)"
  "uint (cc_control s) = 211 \<Longrightarrow> dispatch L val s = Inr (s\<lparr>adsr := adsr_setDecay L (1000 * val) (adsr s)\<rparr>)"
  "uint (cc_control s) = 212 \<Longrightarrow> dispatch L val s =
     Inr (s\<lparr>adsr := adsr_setSustain L (sustain_of L val) (adsr s)\<rparr>)"
  "uint (cc_control s) = 213 \<Longrightarrow> dispatch L val s = Inr (s\<lparr>adsr := adsr_setRelease L (1000 * val) (adsr s)\<rparr>)"
  "uint (cc_control s) = 214 \<Longrightarrow> dispatch L val s =
     (if val = 1 then Inr (s\<lparr>adsr := adsr_noteOn L (t s) (adsr s)\<rparr>)
      else if val = 0 then Inr (s\<lparr>adsr := adsr_noteOff L (t s) (adsr s)\<rparr>)
      else Inr s)"
  "uint (cc_control s) = 220 \<Longrightarrow> dispatch L val s = Inr (s\<lparr>sync_mode := val\<rparr>)"
  "uint (cc_control s) = 221 \<Longrightarrow> dispatch L val s = Inr (s\<lparr>sync_mode0_freq := f32_div (of_int val) 100\<rparr>)"
  "uint (cc_control s) = 222 \<Longrightarrow> dispatch L val s = Inr (s\<lparr>sync_mode1_rate := val\<rparr>)"
  "uint (cc_control s) = 226 \<Longrightarrow> dispatch L val s = Inr (s\<lparr>sync_phase := phase_of val\<rparr>)"
  by (simp_all add: dispatch_def Let_def)

lemma dispatch_cases:
  obtains "uint (cc_control s) = 250" | "uint (cc_control s) = 251"
  | "uint (cc_control s) = 230" | "uint (cc_control s) = 231" | "uint (cc_control s) = 232"
  | "uint (cc_control s) = 234" | "uint (cc_control s) = 235" | "uint (cc_control s) = 233"
  | "uint (cc_control s) = 236" | "uint (cc_control s) = 237"
  | "uint (cc_control s) = 240" | "uint (cc_control s) = 241" | "uint (cc_control s) = 242"
  | "uint (cc_control s) = 244" | "uint (cc_control s) = 245" | "uint (cc_control s) = 243"
  | "uint (cc_control s) = 246" | "uint (cc_control s) = 247"
  | "uint (cc_control s) = 210" | "uint (cc_control s) = 211" | "uint (cc_control s) = 212"
  | "uint (cc_control s) = 213" | "uint (cc_control s) = 214"
  | "uint (cc_control s) = 220" | "uint (cc_control s) = 221" | "uint (cc_control s) = 222"
  | "uint (cc_control s) = 226"
  | "dispatch L val s = Inr s"
  using dispatch_unassigned [of s L val] by blast

subsection \<open>Rounding, the table and the measure test\<close>

lemma pow2_pos: "0 < pow2 e"
  by (simp add: pow2_def)

lemma rne_nonneg: "0 \<le> z \<Longrightarrow> 0 \<le> rne z"
  by (simp add: rne_def Let_def)

lemma fround_nonneg: "0 \<le> x \<Longrightarrow> 0 \<le> fround p x"
  by (simp add: fround_def Let_def rne_nonneg pow2_pos less_imp_le)

lemma freqArray_at_pos: "freqArray_at i = Some rate \<Longrightarrow> 0 < rate"
proof -
  assume a: "freqArray_at i = Some rate"
  then have i: "0 \<le> i" "i < 24" and r: "rate = freqArray ! nat i"
    by (auto simp: freqArray_at_def split: if_splits)
  have "\<forall>x \<in> set freqArray. 0 < x" by (simp add: freqArray_values)
  moreover have "freqArray ! nat i \<in> set freqArray"
    using i by (intro nth_mem) (simp add: freqArray_values)
  ultimately show ?thesis using r by blast
qed

lemma freqArray_at_Some: "0 \<le> i \<Longrightarrow> i < 24 \<Longrightarrow> \<exists>rate. freqArray_at i = Some rate"
  by (simp add: freqArray_at_def)

lemma freqArray_at_None: "24 \<le> i \<Longrightarrow> freqArray_at i = None"
  by (simp add: freqArray_at_def)

lemma c_rem_nonneg: "0 \<le> a \<Longrightarrow> c_rem a b = a mod \<bar>b\<bar>"
  by (simp add: c_rem_def sgn_if)

lemma measure_gate_floor:
  assumes "0 < val" "0 < rate" "measure_gate val rate = Inr g"
  shows "g = (\<lfloor>f32_div (of_int (10 * (val - 1))) rate\<rfloor> mod 10 = 0)"
proof -
  let ?q = "f32_div (of_int (10 * (val - 1))) rate"
  have q: "0 \<le> ?q"
    unfolding f32_div_def using assms(1,2) by (intro fround_nonneg) simp
  then have f: "0 \<le> \<lfloor>?q\<rfloor>" by simp
  from assms(2,3) have "g = (c_rem (c_trunc ?q) 10 = 0)"
    by (auto simp: measure_gate_def float_to_int_def split: if_splits)
  also have "c_trunc ?q = \<lfloor>?q\<rfloor>" using q by (simp add: c_trunc_def)
  also have "c_rem \<lfloor>?q\<rfloor> 10 = \<lfloor>?q\<rfloor> mod 10"
    using c_rem_nonneg [OF f, of 10] by simp
  finally show ?thesis .
qed

lemma measure_gate_rate4:
  "measure_gate 1 4 = Inr True" "measure_gate 2 4 = Inr False" "measure_gate 3 4 = Inr False"
  "measure_gate 4 4 = Inr False" "measure_gate 5 4 = Inr True"
  by (simp_all add: measure_gate_def float_eval c_eval)

subsection \<open>Measure commands\<close>

lemma song_measure_zero: "song_measure L 0 s = Inr s"
  by (simp add: song_measure_def)

lemma song_measure_eq:
  assumes "val \<noteq> 0"
    "lfo_gate L val (dac0_lfo s) = Inr g0" "lfo_gate L val (dac1_lfo s) = Inr g1"
    "freqArray_at (sync_mode1_rate s) = Some rate" "measure_gate val rate = Inr g"
  shows "song_measure L val s =
     Inr (s\<lparr>dac0_lfo := (if g0 then lfo_sync L (t s) (dac0_lfo s) else dac0_lfo s),
            dac1_lfo := (if g1 then lfo_sync L (t s) (dac1_lfo s) else dac1_lfo s),
            sync_t0 := (if g then t s else sync_t0 s),
            pins := (pins s)\<lparr>LED_MEASURE := \<not> LED_MEASURE (pins s)\<rparr>\<rparr>)"
  using assms by (simp add: song_measure_def Let_def digitalWrite_def digitalRead_def)

lemma song_measure_err0:
  "val \<noteq> 0 \<Longrightarrow> lfo_gate L val (dac0_lfo s) = Inl e \<Longrightarrow> song_measure L val s = Inl e"
  by (simp add: song_measure_def)

lemma song_measure_err1:
  "val \<noteq> 0 \<Longrightarrow> lfo_gate L val (dac0_lfo s) = Inr g0 \<Longrightarrow> lfo_gate L val (dac1_lfo s) = Inl e
    \<Longrightarrow> song_measure L val s = Inl e"
  by (simp add: song_measure_def Let_def)

lemma song_measure_table:
  "val \<noteq> 0 \<Longrightarrow> lfo_gate L val (dac0_lfo s) = Inr g0 \<Longrightarrow> lfo_gate L val (dac1_lfo s) = Inr g1
    \<Longrightarrow> freqArray_at (sync_mode1_rate s) = None
    \<Longrightarrow> song_measure L val s = Inl TableIndexOutOfRange"
  by (simp add: song_measure_def Let_def)

lemma song_measure_err2:
  "val \<noteq> 0 \<Longrightarrow> lfo_gate L val (dac0_lfo s) = Inr g0 \<Longrightarrow> lfo_gate L val (dac1_lfo s) = Inr g1
    \<Longrightarrow> freqArray_at (sync_mode1_rate s) = Some rate \<Longrightarrow> measure_gate val rate = Inl e
    \<Longrightarrow> song_measure L val s = Inl e"
  by (simp add: song_measure_def Let_def)

lemma song_measure_Inr:
  assumes "song_measure L val s = Inr s'" "val \<noteq> 0"
  obtains g0 g1 rate g where
    "lfo_gate L val (dac0_lfo s) = Inr g0" "lfo_gate L val (dac1_lfo s) = Inr g1"
    "freqArray_at (sync_mode1_rate s) = Some rate" "measure_gate val rate = Inr g"
    "s' = s\<lparr>dac0_lfo := (if g0 then lfo_sync L (t s) (dac0_lfo s) else dac0_lfo s),
            dac1_lfo := (if g1 then lfo_sync L (t s) (dac1_lfo s) else dac1_lfo s),
            sync_t0 := (if g then t s else sync_t0 s),
            pins := (pins s)\<lparr>LED_MEASURE := \<not> LED_MEASURE (pins s)\<rparr>\<rparr>"
proof -
  obtain g0 where g0: "lfo_gate L val (dac0_lfo s) = Inr g0"
    using assms(1) by (cases "lfo_gate L val (dac0_lfo s)") (auto dest: song_measure_err0 [OF assms(2)])
  obtain g1 where g1: "lfo_gate L val (dac1_lfo s) = Inr g1"
    using assms(1) by (cases "lfo_gate L val (dac1_lfo s)") (auto dest: song_measure_err1 [OF assms(2) g0])
  obtain rate where rate: "freqArray_at (sync_mode1_rate s) = Some rate"
    using assms(1) by (cases "freqArray_at (sync_mode1_rate s)") (auto dest: song_measure_table [OF assms(2) g0 g1])
  obtain g where g: "measure_gate val rate = Inr g"
    using assms(1) by (cases "measure_gate val rate") (auto dest: song_measure_err2 [OF assms(2) g0 g1 rate])
  from assms song_measure_eq [OF assms(2) g0 g1 rate g] that [OF g0 g1 rate g]
  show thesis by simp
qed

subsection \<open>What each block of \<^verbatim>\<open>loop()\<close> leaves alone\<close>

lemma write_dac0_fields:
  "bpm (write_dac0 L s) = bpm s"
  "dac0_ampl (write_dac0 L s) = dac0_ampl s"
  "dac0_adsr_enable (write_dac0 L s) = dac0_adsr_enable s"
  "dac1_ampl (write_dac0 L s) = dac1_ampl s"
  "dac1_adsr_enable (write_dac0 L s) = dac1_adsr_enable s"
  "sync_mode0_freq (write_dac0 L s) = sync_mode0_freq s"
  "sync_mode1_rate (write_dac0 L s) = sync_mode1_rate s"
  "sync_mode (write_dac0 L s) = sync_mode s"
  "sync_phase (write_dac0 L s) = sync_phase s"
  "rx_state (write_dac0 L s) = rx_state s"
  "cc_sync (write_dac0 L s) = cc_sync s"
  "cc_control (write_dac0 L s) = cc_control s"
  "cc_val1 (write_dac0 L s) = cc_val1 s"
  "cc_val2 (write_dac0 L s) = cc_val2 s"
  "t (write_dac0 L s) = t s"
  "sync_t0 (write_dac0 L s) = sync_t0 s"
  "connected_t0 (write_dac0 L s) = connected_t0 s"
  "dac1_lfo (write_dac0 L s) = dac1_lfo s"
  "serial_rx (write_dac0 L s) = serial_rx s"
  "DAC1 (pins (write_dac0 L s)) = DAC1 (pins s)"
  "SYNC_OUTPUT (pins (write_dac0 L s)) = SYNC_OUTPUT (pins s)"
  "LED_DAC1 (pins (write_dac0 L s)) = LED_DAC1 (pins s)"
  "LED_SYNC (pins (write_dac0 L s)) = LED_SYNC (pins s)"
  "LED_BUILTIN (pins (write_dac0 L s)) = LED_BUILTIN (pins s)"
  "LED_MEASURE (pins (write_dac0 L s)) = LED_MEASURE (pins s)"
  by (simp_all add: write_dac0_def digitalWrite_def analogWrite_def Let_def split: prod.split)

lemma write_dac1_fields:
  "bpm (write_dac1 L s) = bpm s"
  "dac0_ampl (write_dac1 L s) = dac0_ampl s"
  "dac0_adsr_enable (write_dac1 L s) = dac0_adsr_enable s"
  "dac1_ampl (write_dac1 L s) = dac1_ampl s"
  "dac1_adsr_enable (write_dac1 L s) = dac1_adsr_enable s"
  "sync_mode0_freq (write_dac1 L s) = sync_mode0_freq s"
  "sync_mode1_rate (write_dac1 L s) = sync_mode1_rate s"
  "sync_mode (write_dac1 L s) = sync_mode s"
  "sync_phase (write_dac1 L s) = sync_phase s"
  "rx_state (write_dac1 L s) = rx_state s"
  "cc_sync (write_dac1 L s) = cc_sync s"
  "cc_control (write_dac1 L s) = cc_control s"
  "cc_val1 (write_dac1 L s) = cc_val1 s"
  "cc_val2 (write_dac1 L s) = cc_val2 s"
  "t (write_dac1 L s) = t s"
  "sync_t0 (write_dac1 L s) = sync_t0 s"
  "connected_t0 (write_dac1 L s) = connected_t0 s"
  "dac0_lfo (write_dac1 L s) = dac0_lfo s"
  "serial_rx (write_dac1 L s) = serial_rx s"
  "DAC0 (pins (write_dac1 L s)) = DAC0 (pins s)"
  "SYNC_OUTPUT (pins (write_dac1 L s)) = SYNC_OUTPUT (pins s)"
  "LED_DAC0 (pins (write_dac1 L s)) = LED_DAC0 (pins s)"
  "LED_SYNC (pins (write_dac1 L s)) = LED_SYNC (pins s)"
  "LED_BUILTIN (pins (write_dac1 L s)) = LED_BUILTIN (pins s)"
  "LED_MEASURE (pins (write_dac1 L s)) = LED_MEASURE (pins s)"
  by (simp_all add: write_dac1_def digitalWrite_def analogWrite_def Let_def split: prod.split)

lemma timeout_led_fields:
  "bpm (timeout_led s) = bpm s"
  "dac0_ampl (timeout_led s) = dac0_ampl s"
  "dac0_adsr_enable (timeout_led s) = dac0_adsr_enable s"
  "dac1_ampl (timeout_led s) = dac1_ampl s"
  "dac1_adsr_enable (timeout_led s) = dac1_adsr_enable s"
  "sync_mode0_freq (timeout_led s) = sync_mode0_freq s"
  "sync_mode1_rate (timeout_led s) = sync_mode1_rate s"
  "sync_mode (timeout_led s) = sync_mode s"
  "sync_phase (timeout_led s) = sync_phase s"
  "rx_state (timeout_led s) = rx_state s"
  "cc_sync (timeout_led s) = cc_sync s"
  "cc_control (timeout_led s) = cc_control s"
  "cc_val1 (timeout_led s) = cc_val1 s"
  "cc_val2 (timeout_led s) = cc_val2 s"
  "t (timeout_led s) = t s"
  "sync_t0 (timeout_led s) = sync_t0 s"
  "connected_t0 (timeout_led s) = connected_t0 s"
  "dac0_lfo (timeout_led s) = dac0_lfo s"
  "dac1_lfo (timeout_led s) = dac1_lfo s"
  "adsr (timeout_led s) = adsr s"
  "serial_rx (timeout_led s) = serial_rx s"
  "DAC0 (pins (timeout_led s)) = DAC0 (pins s)"
  "DAC1 (pins (timeout_led s)) = DAC1 (pins s)"
  "SYNC_OUTPUT (pins (timeout_led s)) = SYNC_OUTPUT (pins s)"
  "LED_DAC0 (pins (timeout_led s)) = LED_DAC0 (pins s)"
  "LED_DAC1 (pins (timeout_led s)) = LED_DAC1 (pins s)"
  "LED_SYNC (pins (timeout_led s)) = LED_SYNC (pins s)"
  "LED_MEASURE (pins (timeout_led s)) = LED_MEASURE (pins s)"
  by (simp_all add: timeout_led_def digitalWrite_def digitalRead_def)

lemma timeout_led_builtin:
  "LED_BUILTIN (pins (timeout_led s)) =
     (LED_BUILTIN (pins s) \<and> \<not> CONNECTED_TIMEOUT < t s - connected_t0 s)"
  by (simp add: timeout_led_def digitalWrite_def digitalRead_def)

lemma write_sync_Inl:
  assumes "write_sync L s = Inl e"
  shows "e = TableIndexOutOfRange \<and> sync_mode s = 1 \<and> freqArray_at (sync_mode1_rate s) = None"
  using assms
  by (simp add: write_sync_def sync_phase_now_def Let_def split: if_splits option.splits)

lemma write_sync_mode0:
  "sync_mode s = 0 \<Longrightarrow> \<exists>x. write_sync L s = Inr (s\<lparr>pins := (pins s)\<lparr>SYNC_OUTPUT := x, LED_SYNC := x\<rparr>\<rparr>)"
  by (rule exI [of _ "blink L (f64_div (f64_mul (real (unat (t s))) (sync_mode0_freq s)) 1000000) \<noteq> 0"])
    (simp add: write_sync_def sync_phase_now_def Let_def digitalWrite_def)

lemma write_sync_mode1:
  "sync_mode s = 1 \<Longrightarrow> freqArray_at (sync_mode1_rate s) = Some rate \<Longrightarrow>
     \<exists>x. write_sync L s = Inr (s\<lparr>pins := (pins s)\<lparr>SYNC_OUTPUT := x, LED_SYNC := x\<rparr>\<rparr>)"
  by (rule exI [of _ "blink L (f64_add
        (f64_div (f64_mul (f64_mul (real (unat (t s - sync_t0 s))) rate) (bpm s)) 60000000)
        (sync_phase s)) \<noteq> 0"])
    (simp add: write_sync_def sync_phase_now_def Let_def digitalWrite_def)

lemma write_sync_mode1_None:
  "sync_mode s = 1 \<Longrightarrow> freqArray_at (sync_mode1_rate s) = None \<Longrightarrow>
     write_sync L s = Inl TableIndexOutOfRange"
  by (simp add: write_sync_def sync_phase_now_def)

lemma write_sync_other:
  "sync_mode s \<noteq> 0 \<Longrightarrow> sync_mode s \<noteq> 1 \<Longrightarrow>
     write_sync L s = Inr (s\<lparr>pins := (pins s)\<lparr>LED_SYNC := blink L 0 \<noteq> 0\<rparr>\<rparr>)"
  by (simp add: write_sync_def sync_phase_now_def Let_def digitalWrite_def)

lemma write_sync_Inr:
  assumes "write_sync L s = Inr s'"
  obtains x y where "s' = s\<lparr>pins := (pins s)\<lparr>SYNC_OUTPUT := x, LED_SYNC := y\<rparr>\<rparr>"
    "sync_mode s = 0 \<or> sync_mode s = 1 \<Longrightarrow> x = y"
    "sync_mode s \<noteq> 0 \<Longrightarrow> sync_mode s \<noteq> 1 \<Longrightarrow> x = SYNC_OUTPUT (pins s) \<and> y = (blink L 0 \<noteq> 0)"
proof -
  consider "sync_mode s = 0" | "sync_mode s = 1" | "sync_mode s \<noteq> 0" "sync_mode s \<noteq> 1"
    by blast
  then show thesis
  proof cases
    case 1
    from write_sync_mode0 [OF 1, of L] assms obtain x where
      "s' = s\<lparr>pins := (pins s)\<lparr>SYNC_OUTPUT := x, LED_SYNC := x\<rparr>\<rparr>" by auto
    then show thesis using 1 by (intro that [of x x]) simp_all
  next
    case 2
    have "freqArray_at (sync_mode1_rate s) \<noteq> None"
      using write_sync_mode1_None [OF 2, of L] assms by auto
    then obtain rate where r: "freqArray_at (sync_mode1_rate s) = Some rate"
      by blast
    from write_sync_mode1 [OF 2 r, of L] assms obtain x where
      "s' = s\<lparr>pins := (pins s)\<lparr>SYNC_OUTPUT := x, LED_SYNC := x\<rparr>\<rparr>" by auto
    then show thesis using 2 by (intro that [of x x]) simp_all
  next
    case 3
    from write_sync_other [OF 3, of L] assms
    have "s' = s\<lparr>pins := (pins s)\<lparr>SYNC_OUTPUT := SYNC_OUTPUT (pins s), LED_SYNC := blink L 0 \<noteq> 0\<rparr>\<rparr>"
      by simp
    then show thesis using 3 by (intro that [where x = "SYNC_OUTPUT (pins s)" and y = "blink L 0 \<noteq> 0"]) simp_all
  qed
qed

subsection \<open>The receiver, one state at a time\<close>

lemma led_on:
  "(if digitalRead LED_BUILTIN s = 0 then digitalWrite LED_BUILTIN_update 1 s else s) =
     s\<lparr>pins := (pins s)\<lparr>LED_BUILTIN := True\<rparr>\<rparr>"
proof (cases "LED_BUILTIN (pins s)")
  case True
  then have "(pins s)\<lparr>LED_BUILTIN := True\<rparr> = pins s"
    by (cases "pins s") simp
  with True show ?thesis by (simp add: digitalRead_def)
next
  case False
  then show ?thesis by (simp add: digitalRead_def digitalWrite_def)
qed

lemma serial_block_empty: "serial_rx s = [] \<Longrightarrow> serial_block L s = Inr s"
  by (simp add: serial_block_def Serial_available_def)

lemma serial_block_0:
  "serial_rx s = b # bs \<Longrightarrow> rx_state s = 0 \<Longrightarrow>
   serial_block L s =
     Inr (s\<lparr>connected_t0 := t s, pins := (pins s)\<lparr>LED_BUILTIN := True\<rparr>,
            rx_state := (if b = 255 then 1 else 0), cc_sync := b, serial_rx := bs\<rparr>)"
  unfolding serial_block_def led_on
  by (simp add: Serial_available_def rx_switch_def Serial_read_def Let_def)

lemma serial_block_1:
  "serial_rx s = b # bs \<Longrightarrow> rx_state s = 1 \<Longrightarrow>
   serial_block L s =
     Inr (s\<lparr>connected_t0 := t s, pins := (pins s)\<lparr>LED_BUILTIN := True\<rparr>,
            rx_state := 2, cc_control := b, serial_rx := bs\<rparr>)"
  unfolding serial_block_def led_on
  by (simp add: Serial_available_def rx_switch_def Serial_read_def Let_def)

lemma serial_block_2:
  "serial_rx s = b # bs \<Longrightarrow> rx_state s = 2 \<Longrightarrow>
   serial_block L s =
     Inr (s\<lparr>connected_t0 := t s, pins := (pins s)\<lparr>LED_BUILTIN := True\<rparr>,
            rx_state := 3, cc_val1 := b, serial_rx := bs\<rparr>)"
  unfolding serial_block_def led_on
  by (simp add: Serial_available_def rx_switch_def Serial_read_def Let_def)

lemma serial_block_3:
  "serial_rx s = b # bs \<Longrightarrow> rx_state s = 3 \<Longrightarrow>
   serial_block L s =
     dispatch L (getInt (uint (cc_val1 s)) (uint b))
       (s\<lparr>connected_t0 := t s, pins := (pins s)\<lparr>LED_BUILTIN := True\<rparr>,
          serial_rx := bs, cc_val2 := b, rx_state := 0\<rparr>)"
  unfolding serial_block_def led_on
  by (simp add: Serial_available_def rx_switch_def Serial_read_def Let_def)

lemma serial_block_other:
  "serial_rx s = b # bs \<Longrightarrow> rx_state s \<noteq> 0 \<Longrightarrow> rx_state s \<noteq> 1 \<Longrightarrow> rx_state s \<noteq> 2 \<Longrightarrow>
   rx_state s \<noteq> 3 \<Longrightarrow>
   serial_block L s =
     Inr (s\<lparr>connected_t0 := t s, pins := (pins s)\<lparr>LED_BUILTIN := True\<rparr>,
            rx_state := rx_state s + 1\<rparr>)"
  unfolding serial_block_def led_on
  by (simp add: Serial_available_def rx_switch_def Serial_read_def Let_def)

subsection \<open>What a command leaves alone\<close>

lemma song_measure_frame:
  assumes "song_measure L val s = Inr s'"
  shows "bpm s' = bpm s \<and> dac0_ampl s' = dac0_ampl s \<and> dac0_adsr_enable s' = dac0_adsr_enable s \<and>
    dac1_ampl s' = dac1_ampl s \<and> dac1_adsr_enable s' = dac1_adsr_enable s \<and>
    sync_mode0_freq s' = sync_mode0_freq s \<and> sync_mode1_rate s' = sync_mode1_rate s \<and>
    sync_mode s' = sync_mode s \<and> sync_phase s' = sync_phase s \<and> adsr s' = adsr s \<and>
    rx_state s' = rx_state s \<and> cc_sync s' = cc_sync s \<and> cc_control s' = cc_control s \<and>
    cc_val1 s' = cc_val1 s \<and> cc_val2 s' = cc_val2 s \<and> t s' = t s \<and>
    connected_t0 s' = connected_t0 s \<and> serial_rx s' = serial_rx s \<and>
    DAC0 (pins s') = DAC0 (pins s) \<and> DAC1 (pins s') = DAC1 (pins s) \<and>
    SYNC_OUTPUT (pins s') = SYNC_OUTPUT (pins s) \<and> LED_DAC0 (pins s') = LED_DAC0 (pins s) \<and>
    LED_DAC1 (pins s') = LED_DAC1 (pins s) \<and> LED_SYNC (pins s') = LED_SYNC (pins s) \<and>
    LED_BUILTIN (pins s') = LED_BUILTIN (pins s)"
proof (cases "val = 0")
  case True
  with assms show ?thesis by (simp add: song_measure_zero)
next
  case False
  show ?thesis
  proof (rule song_measure_Inr [OF assms False])
    fix g0 g1 rate g
    assume "s' = s\<lparr>dac0_lfo := (if g0 then lfo_sync L (t s) (dac0_lfo s) else dac0_lfo s),
            dac1_lfo := (if g1 then lfo_sync L (t s) (dac1_lfo s) else dac1_lfo s),
            sync_t0 := (if g then t s else sync_t0 s),
            pins := (pins s)\<lparr>LED_MEASURE := \<not> LED_MEASURE (pins s)\<rparr>\<rparr>"
    then show ?thesis by simp
  qed
qed

text \<open>
  What no command changes: the receiver's own variables, the timestamps of the loop
  and of the watchdog, the receive buffer, and every pin but the measure LED.
\<close>

lemma dispatch_frame:
  assumes "dispatch L val s = Inr s'"
  shows "rx_state s' = rx_state s \<and> cc_sync s' = cc_sync s \<and> cc_control s' = cc_control s \<and>
    cc_val1 s' = cc_val1 s \<and> cc_val2 s' = cc_val2 s \<and> t s' = t s \<and>
    connected_t0 s' = connected_t0 s \<and> serial_rx s' = serial_rx s \<and>
    DAC0 (pins s') = DAC0 (pins s) \<and> DAC1 (pins s') = DAC1 (pins s) \<and>
    SYNC_OUTPUT (pins s') = SYNC_OUTPUT (pins s) \<and> LED_DAC0 (pins s') = LED_DAC0 (pins s) \<and>
    LED_DAC1 (pins s') = LED_DAC1 (pins s) \<and> LED_SYNC (pins s') = LED_SYNC (pins s) \<and>
    LED_BUILTIN (pins s') = LED_BUILTIN (pins s)"
proof (cases rule: dispatch_cases [where s = s and L = L and val = val])
  case 2
  with assms have "song_measure L val s = Inr s'" by (simp add: dispatch_eqs(2))
  from song_measure_frame [OF this] show ?thesis by simp
qed (insert assms, (clarsimp simp: dispatch_eqs split: option.splits if_splits)+)

lemma loop_Inr:
  assumes "loop L now s = Inr s'"
  obtains s1 where
    "write_sync L (write_dac1 L (write_dac0 L (s\<lparr>t := now\<rparr>))) = Inr s1"
    "serial_block L (timeout_led s1) = Inr s'"
  using assms unfolding loop_eq
  by (cases "write_sync L (write_dac1 L (write_dac0 L (s\<lparr>t := now\<rparr>)))") simp_all

lemma serial_block_frame:
  assumes "serial_block L s = Inr s'"
  shows "t s' = t s \<and> DAC0 (pins s') = DAC0 (pins s) \<and> DAC1 (pins s') = DAC1 (pins s) \<and>
    SYNC_OUTPUT (pins s') = SYNC_OUTPUT (pins s) \<and> LED_DAC0 (pins s') = LED_DAC0 (pins s) \<and>
    LED_DAC1 (pins s') = LED_DAC1 (pins s) \<and> LED_SYNC (pins s') = LED_SYNC (pins s) \<and>
    (serial_rx s = [] \<longrightarrow> s' = s) \<and>
    (serial_rx s \<noteq> [] \<longrightarrow> connected_t0 s' = t s \<and> LED_BUILTIN (pins s'))"
proof (cases "serial_rx s")
  case Nil
  with assms show ?thesis by (simp add: serial_block_empty)
next
  case (Cons b bs)
  consider "rx_state s = 0" | "rx_state s = 1" | "rx_state s = 2" | "rx_state s = 3"
    | "rx_state s \<noteq> 0" "rx_state s \<noteq> 1" "rx_state s \<noteq> 2" "rx_state s \<noteq> 3"
    by blast
  then show ?thesis
  proof cases
    case 1
    from assms show ?thesis unfolding serial_block_0 [OF Cons 1] using Cons by auto
  next
    case 2
    from assms show ?thesis unfolding serial_block_1 [OF Cons 2] using Cons by auto
  next
    case 3
    from assms show ?thesis unfolding serial_block_2 [OF Cons 3] using Cons by auto
  next
    case 4
    from assms have "dispatch L (getInt (uint (cc_val1 s)) (uint b))
       (s\<lparr>connected_t0 := t s, pins := (pins s)\<lparr>LED_BUILTIN := True\<rparr>,
          serial_rx := bs, cc_val2 := b, rx_state := 0\<rparr>) = Inr s'"
      unfolding serial_block_3 [OF Cons 4] .
    from dispatch_frame [OF this] show ?thesis using Cons by simp
  next
    case 5
    from assms show ?thesis unfolding serial_block_other [OF Cons 5] using Cons by auto
  qed
qed

subsection \<open>One call of \<^verbatim>\<open>loop()\<close>\<close>

lemma loop_pins:
  assumes "loop L now s = Inr s'"
  obtains s1 where
    "write_sync L (write_dac1 L (write_dac0 L (s\<lparr>t := now\<rparr>))) = Inr s1"
    "DAC0 (pins s') = DAC0 (pins (write_dac0 L (s\<lparr>t := now\<rparr>)))"
    "DAC1 (pins s') = DAC1 (pins (write_dac1 L (write_dac0 L (s\<lparr>t := now\<rparr>))))"
    "SYNC_OUTPUT (pins s') = SYNC_OUTPUT (pins s1)"
    "LED_SYNC (pins s') = LED_SYNC (pins s1)"
proof (rule loop_Inr [OF assms])
  fix s1
  assume w: "write_sync L (write_dac1 L (write_dac0 L (s\<lparr>t := now\<rparr>))) = Inr s1"
    and b: "serial_block L (timeout_led s1) = Inr s'"
  from write_sync_Inr [OF w] obtain x y where
    s1: "s1 = (write_dac1 L (write_dac0 L (s\<lparr>t := now\<rparr>)))
      \<lparr>pins := (pins (write_dac1 L (write_dac0 L (s\<lparr>t := now\<rparr>))))\<lparr>SYNC_OUTPUT := x, LED_SYNC := y\<rparr>\<rparr>"
    by blast
  have 0: "DAC0 (pins s1) = DAC0 (pins (write_dac0 L (s\<lparr>t := now\<rparr>)))"
    and 1: "DAC1 (pins s1) = DAC1 (pins (write_dac1 L (write_dac0 L (s\<lparr>t := now\<rparr>))))"
    by (simp_all add: s1 write_dac1_fields)
  from serial_block_frame [OF b] 0 1 w show thesis
    by (intro that [of s1]) (simp_all add: timeout_led_fields)
qed

lemma write_dac0_dc:
  assumes "dac0_adsr_enable s" "lfo_getWaveForm L (dac0_lfo s) = 0"
  shows "DAC0 (pins (write_dac0 L s)) =
    arduino_map L (fst (adsr_getWave L (t s) (adsr s))) 0 4095
      (fst (lfo_getWave L (t s) (dac0_lfo s))) 4095"
  using assms
  by (simp add: write_dac0_def digitalWrite_def analogWrite_def Let_def split: prod.split)

lemma write_dac1_dc:
  assumes "dac1_adsr_enable s" "lfo_getWaveForm L (dac1_lfo s) = 0"
  shows "DAC1 (pins (write_dac1 L s)) =
    arduino_map L (fst (adsr_getWave L (t s) (adsr s))) 0 4095
      (fst (lfo_getWave L (t s) (dac1_lfo s))) 4095"
  using assms
  by (simp add: write_dac1_def digitalWrite_def analogWrite_def Let_def split: prod.split)

lemma loop_no_frame:
  assumes "sync_mode s \<noteq> 1 \<or> (0 \<le> sync_mode1_rate s \<and> sync_mode1_rate s < 24)"
    and "serial_rx s = [] \<or> rx_state s \<noteq> 3"
  shows "\<exists>s'. loop L now s = Inr s'"
proof -
  let ?p = "write_dac1 L (write_dac0 L (s\<lparr>t := now\<rparr>))"
  have m: "sync_mode ?p = sync_mode s" "sync_mode1_rate ?p = sync_mode1_rate s"
    by (simp_all add: write_dac0_fields write_dac1_fields)
  have "\<exists>s1. write_sync L ?p = Inr s1"
  proof (cases "write_sync L ?p")
    case (Inl e)
    from write_sync_Inl [OF Inl] assms(1) show ?thesis
      unfolding m by (auto simp: freqArray_at_def split: if_splits)
  qed blast
  then obtain s1 where w: "write_sync L ?p = Inr s1" ..
  from write_sync_Inr [OF w] obtain x y where
    s1: "s1 = ?p\<lparr>pins := (pins ?p)\<lparr>SYNC_OUTPUT := x, LED_SYNC := y\<rparr>\<rparr>"
    by blast
  have f: "serial_rx (timeout_led s1) = serial_rx s" "rx_state (timeout_led s1) = rx_state s"
    by (simp_all add: timeout_led_fields s1 write_dac0_fields write_dac1_fields)
  have "\<exists>s'. serial_block L (timeout_led s1) = Inr s'"
  proof (cases "serial_rx s")
    case Nil
    then show ?thesis by (simp add: serial_block_empty f)
  next
    case (Cons b bs)
    with assms(2) have 3: "rx_state (timeout_led s1) \<noteq> 3" by (simp add: f)
    from Cons have c: "serial_rx (timeout_led s1) = b # bs" by (simp add: f)
    consider "rx_state (timeout_led s1) = 0" | "rx_state (timeout_led s1) = 1"
      | "rx_state (timeout_led s1) = 2"
      | "rx_state (timeout_led s1) \<noteq> 0" "rx_state (timeout_led s1) \<noteq> 1"
        "rx_state (timeout_led s1) \<noteq> 2"
      by blast
    then show ?thesis
    proof cases
      case 1 then show ?thesis unfolding serial_block_0 [OF c 1] by blast
    next
      case 2 then show ?thesis unfolding serial_block_1 [OF c 2] by blast
    next
      case 3 then show ?thesis unfolding serial_block_2 [OF c 3] by blast
    next
      case 4 with 3 show ?thesis unfolding serial_block_other [OF c 4 3] by blast
    qed
  qed
  then show ?thesis unfolding loop_eq w by simp
qed

lemma blink_due:
  "blink due 0 = 0"
  "blink due (f64_div (f64_mul 50000 10) 1000000) = 1"
  "blink due (f64_div (f64_mul 150000 10) 1000000) = 1"
  "blink due (f64_div (f64_mul 250000 10) 1000000) = 1"
  "blink due (f64_div (f64_mul 350000 10) 1000000) = 1"
  "blink due (f64_div (f64_mul 450000 10) 1000000) = 1"
  by (simp_all add: blink_def due_simps due_round_def float_eval c_eval)

lemma dc_envelope_loop:
  "map_sum id (DAC0 \<circ> pins) (loop due 5 dc_envelope) = Inr 2547"
  "map_sum id (DAC1 \<circ> pins) (loop due 5 dc_envelope) = Inr 2547"
  by (simp_all add: dc_envelope_def power_on_due due_simps step_eqs due_map_def c_div_def)

subsection \<open>One call of \<^verbatim>\<open>loop()\<close> with a byte waiting\<close>

text \<open>
  If the table index is in range whenever the sync output is tempo-locked, a call of
  \<^verbatim>\<open>loop()\<close> reaches the receiver, in a state \<open>s1\<close> that differs from the state at
  the call only in the timestamp, the two oscillators, the envelope and the pins.
\<close>

lemma loop_reaches_serial:
  assumes "sync_mode s \<noteq> 1 \<or> (0 \<le> sync_mode1_rate s \<and> sync_mode1_rate s < 24)"
  shows "\<exists>s1. loop L now s = serial_block L s1 \<and> t s1 = now \<and>
    bpm s1 = bpm s \<and> dac0_ampl s1 = dac0_ampl s \<and> dac0_adsr_enable s1 = dac0_adsr_enable s \<and>
    dac1_ampl s1 = dac1_ampl s \<and> dac1_adsr_enable s1 = dac1_adsr_enable s \<and>
    sync_mode0_freq s1 = sync_mode0_freq s \<and> sync_mode1_rate s1 = sync_mode1_rate s \<and>
    sync_mode s1 = sync_mode s \<and> sync_phase s1 = sync_phase s \<and> sync_t0 s1 = sync_t0 s \<and>
    rx_state s1 = rx_state s \<and> cc_sync s1 = cc_sync s \<and> cc_control s1 = cc_control s \<and>
    cc_val1 s1 = cc_val1 s \<and> cc_val2 s1 = cc_val2 s \<and> serial_rx s1 = serial_rx s \<and>
    connected_t0 s1 = connected_t0 s \<and> LED_MEASURE (pins s1) = LED_MEASURE (pins s)"
proof -
  let ?p = "write_dac1 L (write_dac0 L (s\<lparr>t := now\<rparr>))"
  have m: "sync_mode ?p = sync_mode s" "sync_mode1_rate ?p = sync_mode1_rate s"
    by (simp_all add: write_dac0_fields write_dac1_fields)
  have "\<exists>s1. write_sync L ?p = Inr s1"
  proof (cases "write_sync L ?p")
    case (Inl e)
    from write_sync_Inl [OF Inl] assms(1) show ?thesis
      unfolding m by (auto simp: freqArray_at_def split: if_splits)
  qed blast
  then obtain s1 where w: "write_sync L ?p = Inr s1" ..
  from write_sync_Inr [OF w] obtain x y where
    s1: "s1 = ?p\<lparr>pins := (pins ?p)\<lparr>SYNC_OUTPUT := x, LED_SYNC := y\<rparr>\<rparr>"
    by blast
  have "loop L now s = serial_block L (timeout_led s1)"
    unfolding loop_eq w by simp
  moreover have "t (timeout_led s1) = now" "bpm (timeout_led s1) = bpm s"
    "dac0_ampl (timeout_led s1) = dac0_ampl s"
    "dac0_adsr_enable (timeout_led s1) = dac0_adsr_enable s"
    "dac1_ampl (timeout_led s1) = dac1_ampl s"
    "dac1_adsr_enable (timeout_led s1) = dac1_adsr_enable s"
    "sync_mode0_freq (timeout_led s1) = sync_mode0_freq s"
    "sync_mode1_rate (timeout_led s1) = sync_mode1_rate s"
    "sync_mode (timeout_led s1) = sync_mode s" "sync_phase (timeout_led s1) = sync_phase s"
    "sync_t0 (timeout_led s1) = sync_t0 s" "rx_state (timeout_led s1) = rx_state s"
    "cc_sync (timeout_led s1) = cc_sync s" "cc_control (timeout_led s1) = cc_control s"
    "cc_val1 (timeout_led s1) = cc_val1 s" "cc_val2 (timeout_led s1) = cc_val2 s"
    "serial_rx (timeout_led s1) = serial_rx s" "connected_t0 (timeout_led s1) = connected_t0 s"
    "LED_MEASURE (pins (timeout_led s1)) = LED_MEASURE (pins s)"
    by (simp_all add: timeout_led_fields s1 write_dac0_fields write_dac1_fields)
  ultimately show ?thesis by blast
qed

text \<open>
  The receiver on one byte, outside the last byte of a frame: the byte is stored, the
  state of the receiver advances (or falls back to 0 on a first byte that is not 255),
  and nothing a command could set has changed.
\<close>

lemma loop_receives_byte:
  assumes "sync_mode s \<noteq> 1 \<or> (0 \<le> sync_mode1_rate s \<and> sync_mode1_rate s < 24)"
    and "serial_rx s = []" and "rx_state s = 0 \<or> rx_state s = 1 \<or> rx_state s = 2"
  shows "\<exists>s'. loop L now (serial_receive [b] s) = Inr s' \<and> serial_rx s' = [] \<and>
    rx_state s' = (if rx_state s = 0 then (if b = 255 then 1 else 0) else rx_state s + 1) \<and>
    cc_control s' = (if rx_state s = 1 then b else cc_control s) \<and>
    cc_val1 s' = (if rx_state s = 2 then b else cc_val1 s) \<and>
    bpm s' = bpm s \<and> dac0_ampl s' = dac0_ampl s \<and> dac0_adsr_enable s' = dac0_adsr_enable s \<and>
    dac1_ampl s' = dac1_ampl s \<and> dac1_adsr_enable s' = dac1_adsr_enable s \<and>
    sync_mode0_freq s' = sync_mode0_freq s \<and> sync_mode1_rate s' = sync_mode1_rate s \<and>
    sync_mode s' = sync_mode s \<and> sync_phase s' = sync_phase s \<and> sync_t0 s' = sync_t0 s \<and>
    LED_MEASURE (pins s') = LED_MEASURE (pins s)"
proof -
  let ?s = "serial_receive [b] s"
  have r: "sync_mode ?s = sync_mode s" "sync_mode1_rate ?s = sync_mode1_rate s"
    "rx_state ?s = rx_state s" "serial_rx ?s = [b]" "cc_control ?s = cc_control s"
    "cc_val1 ?s = cc_val1 s" "bpm ?s = bpm s" "dac0_ampl ?s = dac0_ampl s"
    "dac0_adsr_enable ?s = dac0_adsr_enable s" "dac1_ampl ?s = dac1_ampl s"
    "dac1_adsr_enable ?s = dac1_adsr_enable s" "sync_mode0_freq ?s = sync_mode0_freq s"
    "sync_phase ?s = sync_phase s" "sync_t0 ?s = sync_t0 s"
    "LED_MEASURE (pins ?s) = LED_MEASURE (pins s)"
    by (simp_all add: serial_receive_def assms(2))
  from assms(1) have ok: "sync_mode ?s \<noteq> 1 \<or> (0 \<le> sync_mode1_rate ?s \<and> sync_mode1_rate ?s < 24)"
    unfolding r .
  from loop_reaches_serial [OF ok, of L now] obtain s1 where
    l: "loop L now ?s = serial_block L s1" and
    f: "bpm s1 = bpm s" "dac0_ampl s1 = dac0_ampl s" "dac0_adsr_enable s1 = dac0_adsr_enable s"
      "dac1_ampl s1 = dac1_ampl s" "dac1_adsr_enable s1 = dac1_adsr_enable s"
      "sync_mode0_freq s1 = sync_mode0_freq s" "sync_mode1_rate s1 = sync_mode1_rate s"
      "sync_mode s1 = sync_mode s" "sync_phase s1 = sync_phase s" "sync_t0 s1 = sync_t0 s"
      "rx_state s1 = rx_state s" "cc_control s1 = cc_control s" "cc_val1 s1 = cc_val1 s"
      "serial_rx s1 = [b]" "LED_MEASURE (pins s1) = LED_MEASURE (pins s)"
    unfolding r by blast
  from assms(3) consider "rx_state s1 = 0" | "rx_state s1 = 1" | "rx_state s1 = 2"
    unfolding f by blast
  then show ?thesis
  proof cases
    case 1 then show ?thesis
      unfolding l serial_block_0 [OF f(14) 1] using f by simp
  next
    case 2 then show ?thesis
      unfolding l serial_block_1 [OF f(14) 2] using f by simp
  next
    case 3 then show ?thesis
      unfolding l serial_block_2 [OF f(14) 3] using f by simp
  qed
qed

text \<open>
  The receiver on the last byte of a frame: the value is put together and dispatched,
  in a state where the receiver is back at 0.
\<close>

lemma loop_receives_frame:
  assumes "sync_mode s \<noteq> 1 \<or> (0 \<le> sync_mode1_rate s \<and> sync_mode1_rate s < 24)"
    and "serial_rx s = []" and "rx_state s = 3"
  shows "\<exists>s2. loop L now (serial_receive [b] s) =
      dispatch L (getInt (uint (cc_val1 s)) (uint b)) s2 \<and>
    serial_rx s2 = [] \<and> rx_state s2 = 0 \<and> cc_control s2 = cc_control s \<and>
    cc_val1 s2 = cc_val1 s \<and> cc_val2 s2 = b \<and> t s2 = now \<and>
    sync_mode1_rate s2 = sync_mode1_rate s \<and> sync_mode s2 = sync_mode s"
proof -
  let ?s = "serial_receive [b] s"
  have r: "sync_mode ?s = sync_mode s" "sync_mode1_rate ?s = sync_mode1_rate s"
    "rx_state ?s = rx_state s" "serial_rx ?s = [b]" "cc_control ?s = cc_control s"
    "cc_val1 ?s = cc_val1 s"
    by (simp_all add: serial_receive_def assms(2))
  from assms(1) have ok: "sync_mode ?s \<noteq> 1 \<or> (0 \<le> sync_mode1_rate ?s \<and> sync_mode1_rate ?s < 24)"
    unfolding r .
  from loop_reaches_serial [OF ok, of L now] obtain s1 where
    l: "loop L now ?s = serial_block L s1" and
    f: "rx_state s1 = 3" "serial_rx s1 = [b]" "cc_control s1 = cc_control s"
      "cc_val1 s1 = cc_val1 s" "t s1 = now" "sync_mode1_rate s1 = sync_mode1_rate s"
      "sync_mode s1 = sync_mode s"
    unfolding r assms(3) by blast
  show ?thesis
    unfolding l serial_block_3 [OF f(2) f(1)] f(4)
    by (rule exI [of _ "s1\<lparr>connected_t0 := t s1, pins := (pins s1)\<lparr>LED_BUILTIN := True\<rparr>,
          serial_rx := [], cc_val2 := b, rx_state := 0\<rparr>"]) (simp add: f)
qed

subsection \<open>The table accesses of the commands\<close>

lemma measure_gate_Inl: "measure_gate val rate = Inl e \<Longrightarrow> e = FloatToIntOutOfRange"
  by (auto simp: measure_gate_def float_to_int_def split: if_splits sum.splits)

lemma lfo_gate_Inl: "lfo_gate L val l = Inl e \<Longrightarrow> e = FloatToIntOutOfRange"
  by (auto simp: lfo_gate_def dest: measure_gate_Inl split: if_splits)

text \<open>A measure command fails on the table only when the sync index is out of range.\<close>

lemma song_measure_Inl:
  assumes "song_measure L val s = Inl e"
  shows "e = FloatToIntOutOfRange \<or>
    (e = TableIndexOutOfRange \<and> val \<noteq> 0 \<and> freqArray_at (sync_mode1_rate s) = None)"
proof -
  from assms have nz: "val \<noteq> 0" by (auto simp: song_measure_zero)
  show ?thesis
  proof (cases "lfo_gate L val (dac0_lfo s)")
    case (Inl e0)
    from song_measure_err0 [OF nz Inl] assms lfo_gate_Inl [OF Inl] show ?thesis by simp
  next
    case g0: (Inr g0)
    show ?thesis
    proof (cases "lfo_gate L val (dac1_lfo s)")
      case (Inl e1)
      from song_measure_err1 [OF nz g0 Inl] assms lfo_gate_Inl [OF Inl] show ?thesis by simp
    next
      case g1: (Inr g1)
      show ?thesis
      proof (cases "freqArray_at (sync_mode1_rate s)")
        case None
        from song_measure_table [OF nz g0 g1 None] assms nz None show ?thesis by simp
      next
        case (Some rate)
        show ?thesis
        proof (cases "measure_gate val rate")
          case (Inl e2)
          from song_measure_err2 [OF nz g0 g1 Some Inl] assms measure_gate_Inl [OF Inl]
          show ?thesis by simp
        next
          case (Inr g)
          from song_measure_eq [OF nz g0 g1 Some Inr] assms show ?thesis by simp
        qed
      qed
    qed
  qed
qed

text \<open>
  The table accesses of the command chain: a measure command reads the entry at
  \<^verbatim>\<open>sync_mode1_rate\<close>, the two oscillator rate commands read the entry at the value.
\<close>

lemma dispatch_Inl:
  assumes "dispatch L val s = Inl e"
  shows "e = FloatToIntOutOfRange \<or>
    (e = TableIndexOutOfRange \<and>
      (uint (cc_control s) = 251 \<and> val \<noteq> 0 \<and> freqArray_at (sync_mode1_rate s) = None \<or>
       (uint (cc_control s) = 232 \<or> uint (cc_control s) = 242) \<and> freqArray_at val = None))"
proof (cases rule: dispatch_cases [where s = s and L = L and val = val])
  case 2
  with assms have "song_measure L val s = Inl e" by (simp add: dispatch_eqs(2))
  from song_measure_Inl [OF this] 2 show ?thesis by simp
qed (insert assms, (clarsimp simp: dispatch_eqs split: option.splits if_splits)+)

lemma dispatch_sync_mode1_rate:
  assumes "dispatch L val s = Inr s'"
  shows "sync_mode1_rate s' = (if uint (cc_control s) = 222 then val else sync_mode1_rate s)"
proof (cases "uint (cc_control s) = 222")
  case True
  with assms show ?thesis by (auto simp: dispatch_eqs)
next
  case False
  show ?thesis
  proof (cases rule: dispatch_cases [where s = s and L = L and val = val])
    case 2
    with assms have "song_measure L val s = Inr s'" by (simp add: dispatch_eqs(2))
    from song_measure_frame [OF this] 2 show ?thesis by simp
  qed (insert assms False, (clarsimp simp: dispatch_eqs split: option.splits if_splits)+)
qed

lemma dispatch_table_safe:
  assumes "0 \<le> sync_mode1_rate s" "sync_mode1_rate s < 24" "0 \<le> val"
    and "rate_index_ok (Some (uint (cc_control s), val))"
  shows "dispatch L val s \<noteq> Inl TableIndexOutOfRange \<and>
    (\<forall>s'. dispatch L val s = Inr s' \<longrightarrow> 0 \<le> sync_mode1_rate s' \<and> sync_mode1_rate s' < 24)"
proof -
  have "dispatch L val s \<noteq> Inl TableIndexOutOfRange"
  proof
    assume "dispatch L val s = Inl TableIndexOutOfRange"
    from dispatch_Inl [OF this] assms show False
      by (auto simp: freqArray_at_def rate_index_ok_def split: if_splits)
  qed
  moreover have "0 \<le> sync_mode1_rate s' \<and> sync_mode1_rate s' < 24"
    if "dispatch L val s = Inr s'" for s'
    using dispatch_sync_mode1_rate [OF that] assms
    by (auto simp: rate_index_ok_def split: if_splits)
  ultimately show ?thesis by blast
qed

subsection \<open>Table accesses along a run\<close>

text \<open>
  One call of \<^verbatim>\<open>loop()\<close>, when the sync path does not fail: either no frame is
  completed, the call succeeds and the sync mode and index are kept; or the call is
  the dispatch of the completed frame.
\<close>

lemma loop_effect:
  assumes "sync_mode s \<noteq> 1 \<or> (0 \<le> sync_mode1_rate s \<and> sync_mode1_rate s < 24)"
  shows "(completes_frame s = None \<longrightarrow>
      (\<exists>s'. loop L now s = Inr s' \<and> sync_mode1_rate s' = sync_mode1_rate s \<and>
         sync_mode s' = sync_mode s)) \<and>
    (\<forall>c v. completes_frame s = Some (c, v) \<longrightarrow>
      (\<exists>s2. loop L now s = dispatch L v s2 \<and> uint (cc_control s2) = c \<and>
         sync_mode1_rate s2 = sync_mode1_rate s \<and> sync_mode s2 = sync_mode s))"
proof -
  from loop_reaches_serial [OF assms, of L now] obtain s1 where
    l: "loop L now s = serial_block L s1" and
    f: "rx_state s1 = rx_state s" "serial_rx s1 = serial_rx s" "cc_control s1 = cc_control s"
      "cc_val1 s1 = cc_val1 s" "sync_mode1_rate s1 = sync_mode1_rate s"
      "sync_mode s1 = sync_mode s"
    by blast
  show ?thesis
  proof (cases "serial_rx s")
    case Nil
    then show ?thesis
      unfolding l by (simp add: completes_frame_def serial_block_empty f)
  next
    case (Cons b bs)
    then have c: "serial_rx s1 = b # bs" by (simp add: f)
    consider "rx_state s1 = 0" | "rx_state s1 = 1" | "rx_state s1 = 2" | "rx_state s1 = 3"
      | "rx_state s1 \<noteq> 0" "rx_state s1 \<noteq> 1" "rx_state s1 \<noteq> 2" "rx_state s1 \<noteq> 3"
      by blast
    then show ?thesis
    proof cases
      case 1 then show ?thesis
        unfolding l serial_block_0 [OF c 1] using f Cons by (simp add: completes_frame_def)
    next
      case 2 then show ?thesis
        unfolding l serial_block_1 [OF c 2] using f Cons by (simp add: completes_frame_def)
    next
      case 3 then show ?thesis
        unfolding l serial_block_2 [OF c 3] using f Cons by (simp add: completes_frame_def)
    next
      case 4
      have "\<exists>s2. dispatch L (getInt (uint (cc_val1 s1)) (uint b))
            (s1\<lparr>connected_t0 := t s1, pins := (pins s1)\<lparr>LED_BUILTIN := True\<rparr>,
               serial_rx := bs, cc_val2 := b, rx_state := 0\<rparr>) =
          dispatch L (getInt (uint (cc_val1 s)) (uint b)) s2 \<and>
          uint (cc_control s2) = uint (cc_control s) \<and>
          sync_mode1_rate s2 = sync_mode1_rate s \<and> sync_mode s2 = sync_mode s"
        by (rule exI [of _ "s1\<lparr>connected_t0 := t s1, pins := (pins s1)\<lparr>LED_BUILTIN := True\<rparr>,
               serial_rx := bs, cc_val2 := b, rx_state := 0\<rparr>"]) (simp add: f)
      with 4 show ?thesis
        unfolding l serial_block_3 [OF c 4] using f Cons by (simp add: completes_frame_def)
    next
      case 5 then show ?thesis
        unfolding l serial_block_other [OF c 5] using f Cons by (simp add: completes_frame_def)
    qed
  qed
qed

lemma completes_frame_value: "completes_frame s = Some (c, v) \<Longrightarrow> 0 \<le> v"
  by (auto simp: completes_frame_def getInt_range split: list.splits if_splits)

text \<open>The sync path of \<^verbatim>\<open>loop()\<close> in tempo-locked mode with the index out of range.\<close>

lemma loop_table_error:
  assumes "sync_mode s = 1" "24 \<le> sync_mode1_rate s"
  shows "loop L now s = Inl TableIndexOutOfRange"
proof -
  let ?p = "write_dac1 L (write_dac0 L (s\<lparr>t := now\<rparr>))"
  have "sync_mode ?p = 1" "freqArray_at (sync_mode1_rate ?p) = None"
    using assms by (simp_all add: write_dac0_fields write_dac1_fields freqArray_at_None)
  then have "write_sync L ?p = Inl TableIndexOutOfRange"
    by (rule write_sync_mode1_None)
  then show ?thesis unfolding loop_eq by simp
qed

text \<open>
  With the index in range and every tempo-rate value of the run at most 23, no call of
  the run reads outside the table.
\<close>

lemma run_table_safe:
  assumes "0 \<le> sync_mode1_rate s" "sync_mode1_rate s < 24" "rate_indices_ok L es s"
  shows "run L es s \<noteq> Inl TableIndexOutOfRange"
  using assms
proof (induction es arbitrary: s)
  case Nil
  then show ?case by simp
next
  case (Cons ev es)
  obtain bs now where ev: "ev = (bs, now)" by (cases ev)
  let ?s = "serial_receive bs s"
  have r: "sync_mode1_rate ?s = sync_mode1_rate s" by (simp add: serial_receive_def)
  from Cons.prems have ok: "sync_mode ?s \<noteq> 1 \<or> (0 \<le> sync_mode1_rate ?s \<and> sync_mode1_rate ?s < 24)"
    and fr: "rate_index_ok (completes_frame ?s)"
    by (simp_all add: r ev)
  have step: "loop L now ?s \<noteq> Inl TableIndexOutOfRange \<and>
    (\<forall>s'. loop L now ?s = Inr s' \<longrightarrow> 0 \<le> sync_mode1_rate s' \<and> sync_mode1_rate s' < 24)"
  proof (cases "completes_frame ?s")
    case None
    with loop_effect [OF ok, of L now] Cons.prems(1,2) show ?thesis
      by (auto simp: r)
  next
    case (Some f)
    obtain c v where f: "f = (c, v)" by (cases f)
    from loop_effect [OF ok, of L now] Some f obtain s2 where
      l: "loop L now ?s = dispatch L v s2" and c: "uint (cc_control s2) = c"
      and i: "sync_mode1_rate s2 = sync_mode1_rate s"
      by (auto simp: r)
    from Some f have v: "0 \<le> v" by (auto dest: completes_frame_value)
    from fr Some f c have "rate_index_ok (Some (uint (cc_control s2), v))" by simp
    from dispatch_table_safe [OF _ _ v this, of L] Cons.prems(1,2) show ?thesis
      unfolding l i by simp
  qed
  show ?case
  proof (cases "loop L now ?s")
    case (Inl e)
    with step show ?thesis by (auto simp: ev)
  next
    case (Inr s')
    with step have "0 \<le> sync_mode1_rate s'" "sync_mode1_rate s' < 24" by auto
    moreover from Cons.prems(3) Inr have "rate_indices_ok L es s'" by (simp add: ev)
    ultimately have "run L es s' \<noteq> Inl TableIndexOutOfRange" by (rule Cons.IH)
    with Inr show ?thesis by (simp add: ev)
  qed
qed

section \<open>The claims\<close>

subsection \<open>Phase commands\<close>

lemma phase_of_values: "phase_of 0 = 1" "phase_of 180 = 1 / 2"
  by (simp_all add: phase_of_def float_eval)

text \<open>
  Claim C7. A phase command, control 236 or 246 for the two oscillators and 226 for the
  sync output, with raw value \<open>val\<close> sets the configured phase to \<open>(360 - val) / 360\<close>,
  computed in \<^verbatim>\<open>float\<close>: the oscillator receives it through \<^verbatim>\<open>setMode1Phase\<close>, the sync
  phase is stored in \<^verbatim>\<open>sync_phase\<close>. Raw value 0 gives phase 1, raw value 180 gives 0.5.
\<close>

theorem phase_command:
  "(uint (cc_control s) = 236 \<longrightarrow>
      dispatch L val s = Inr (s\<lparr>dac0_lfo := lfo_setMode1Phase L (phase_of val) (dac0_lfo s)\<rparr>)) \<and>
   (uint (cc_control s) = 246 \<longrightarrow>
      dispatch L val s = Inr (s\<lparr>dac1_lfo := lfo_setMode1Phase L (phase_of val) (dac1_lfo s)\<rparr>)) \<and>
   (uint (cc_control s) = 226 \<longrightarrow> dispatch L val s = Inr (s\<lparr>sync_phase := phase_of val\<rparr>)) \<and>
   phase_of val = f32_div (f32_sub 360 (of_int val)) 360 \<and>
   phase_of 0 = 1 \<and> phase_of 180 = 1 / 2"
  by (simp add: dispatch_eqs phase_of_values) (simp add: phase_of_def)

theorem phase_command_witness:
  "uint (cc_control ((power_on due)\<lparr>cc_control := 226\<rparr>)) = 226 \<and>
   map_sum id sync_phase (dispatch due 180 ((power_on due)\<lparr>cc_control := 226\<rparr>)) = Inr (1 / 2) \<and>
   uint (cc_control ((power_on due)\<lparr>cc_control := 236\<rparr>)) = 236 \<and>
   map_sum id (\<lambda>s. lm_mode1_phase (dac0_lfo s))
     (dispatch due 0 ((power_on due)\<lparr>cc_control := 236\<rparr>)) = Inr 1"
  using phase_command [of "(power_on due)\<lparr>cc_control := 226\<rparr>" due 180]
    phase_command [of "(power_on due)\<lparr>cc_control := 236\<rparr>" due 0]
  by (simp add: due_def)

subsection \<open>Control ids without a command\<close>

text \<open>
  Claim C9. A completed frame whose control id is none of the assigned ids (250, 251,
  210 to 214, 220 to 222, 226, 230 to 237, 240 to 247) is dispatched without an error
  and leaves the whole state as it is: the globals, both oscillators, the envelope and
  every pin.
\<close>

theorem unassigned_control_ignored:
  assumes "uint (cc_control s) \<notin>
    {250, 251} \<union> {210..214} \<union> {220..222} \<union> {226} \<union> {230..237} \<union> {240..247}"
  shows "dispatch L val s = Inr s"
proof -
  have c:
    "\<not> (210 \<le> uint (cc_control s) \<and> uint (cc_control s) \<le> 214)"
    "\<not> (220 \<le> uint (cc_control s) \<and> uint (cc_control s) \<le> 222)"
    "\<not> (230 \<le> uint (cc_control s) \<and> uint (cc_control s) \<le> 237)"
    "\<not> (240 \<le> uint (cc_control s) \<and> uint (cc_control s) \<le> 247)"
    "uint (cc_control s) \<noteq> 250" "uint (cc_control s) \<noteq> 251" "uint (cc_control s) \<noteq> 226"
    using assms by simp_all
  have r: "x \<noteq> k" if "\<not> (a \<le> x \<and> x \<le> b)" "a \<le> k" "k \<le> b" for a b k x :: int
    using that by auto
  show ?thesis
    by (rule dispatch_unassigned)
      (fact c | (rule r [OF c(1)]; (simp; fail)) | (rule r [OF c(2)]; (simp; fail))
        | (rule r [OF c(3)]; (simp; fail)) | (rule r [OF c(4)]; (simp; fail)))+
qed

theorem unassigned_control_ignored_witness:
  "uint (200 :: byte) \<notin>
     {250, 251} \<union> {210..214} \<union> {220..222} \<union> {226} \<union> {230..237} \<union> {240..247} \<and>
   dispatch due 1234 ((power_on due)\<lparr>cc_control := 200\<rparr>) =
     Inr ((power_on due)\<lparr>cc_control := 200\<rparr>)"
  using unassigned_control_ignored [of "(power_on due)\<lparr>cc_control := 200\<rparr>" due 1234]
  by simp

subsection \<open>Measure commands and the resync test\<close>

lemma table_15: "freqArray_at 15 = Some 1"
  by (simp add: freqArray_at_def freqArray_values)
lemma measure_gate_rate1:
  "measure_gate 1 1 = Inr True" "measure_gate 2 1 = Inr True" "measure_gate 5 1 = Inr True"
  by (simp_all add: measure_gate_def float_eval c_eval)

lemma lfo_gate_rate4:
  assumes "lfo_getMode L l \<noteq> 0" "lfo_getMode1Rate L l = 4" "1 \<le> val" "val \<le> 5"
  shows "lfo_gate L val l = Inr (val = 1 \<or> val = 5)"
proof -
  from assms(3,4) consider "val = 1" | "val = 2" | "val = 3" | "val = 4" | "val = 5" by arith
  then show ?thesis
    by cases (simp_all add: lfo_gate_def assms(1,2) measure_gate_rate4)
qed

lemma tempo_rate4_measure:
  "dispatch due 1 tempo_rate4 = Inr (tempo_rate4
     \<lparr>dac0_lfo := (dac0_lfo tempo_rate4)\<lparr>lm_t0 := 777\<rparr>, dac1_lfo := (dac1_lfo tempo_rate4)\<lparr>lm_t0 := 777\<rparr>,
      sync_t0 := 777, pins := (pins tempo_rate4)\<lparr>LED_MEASURE := True\<rparr>\<rparr>)"
  "dispatch due 2 tempo_rate4 = Inr (tempo_rate4
     \<lparr>sync_t0 := 777, pins := (pins tempo_rate4)\<lparr>LED_MEASURE := True\<rparr>\<rparr>)"
  by (simp_all add: tempo_rate4_def power_on_due dispatch_eqs song_measure_def lfo_gate_def due_simps
      measure_gate_rate4 measure_gate_rate1 table_15 digitalWrite_def digitalRead_def Let_def)

text \<open>
  Claim C3. For an oscillator in tempo mode whose rate is 4, a measure command
  (control 251) with value 1, 2, 3, 4 or 5 resyncs the oscillator exactly for the values
  1 and 5, where \<open>\<lfloor>10 * (value - 1) / 4\<rfloor> mod 10 = 0\<close>; the values 2, 3 and 4 leave the
  oscillator as it is. This holds for either channel.
\<close>

theorem measure_gating_rate_4:
  assumes "uint (cc_control s) = 251" "dispatch L val s = Inr s'" "1 \<le> val" "val \<le> 5"
  shows
    "(lfo_getMode L (dac0_lfo s) \<noteq> 0 \<and> lfo_getMode1Rate L (dac0_lfo s) = 4 \<longrightarrow>
        lfo_gate L val (dac0_lfo s) = Inr (val = 1 \<or> val = 5) \<and>
        dac0_lfo s' = (if val = 1 \<or> val = 5 then lfo_sync L (t s) (dac0_lfo s) else dac0_lfo s)) \<and>
     (lfo_getMode L (dac1_lfo s) \<noteq> 0 \<and> lfo_getMode1Rate L (dac1_lfo s) = 4 \<longrightarrow>
        lfo_gate L val (dac1_lfo s) = Inr (val = 1 \<or> val = 5) \<and>
        dac1_lfo s' = (if val = 1 \<or> val = 5 then lfo_sync L (t s) (dac1_lfo s) else dac1_lfo s))"
proof -
  from assms(1,2) have sm: "song_measure L val s = Inr s'"
    by (simp add: dispatch_eqs(2))
  from assms(3) have nz: "val \<noteq> 0"
    by simp
  show ?thesis
  proof (rule song_measure_Inr [OF sm nz])
    fix g0 g1 rate g
    assume g0: "lfo_gate L val (dac0_lfo s) = Inr g0"
      and g1: "lfo_gate L val (dac1_lfo s) = Inr g1"
      and s': "s' = s\<lparr>dac0_lfo := (if g0 then lfo_sync L (t s) (dac0_lfo s) else dac0_lfo s),
            dac1_lfo := (if g1 then lfo_sync L (t s) (dac1_lfo s) else dac1_lfo s),
            sync_t0 := (if g then t s else sync_t0 s),
            pins := (pins s)\<lparr>LED_MEASURE := \<not> LED_MEASURE (pins s)\<rparr>\<rparr>"
    have 0: "dac0_lfo s' = (if g0 then lfo_sync L (t s) (dac0_lfo s) else dac0_lfo s)"
      and 1: "dac1_lfo s' = (if g1 then lfo_sync L (t s) (dac1_lfo s) else dac1_lfo s)"
      by (simp_all add: s')
    have c0: "lfo_gate L val (dac0_lfo s) = Inr (val = 1 \<or> val = 5) \<and>
        dac0_lfo s' = (if val = 1 \<or> val = 5 then lfo_sync L (t s) (dac0_lfo s) else dac0_lfo s)"
      if "lfo_getMode L (dac0_lfo s) \<noteq> 0" "lfo_getMode1Rate L (dac0_lfo s) = 4"
      using lfo_gate_rate4 [OF that assms(3,4)] g0 0 by simp
    have c1: "lfo_gate L val (dac1_lfo s) = Inr (val = 1 \<or> val = 5) \<and>
        dac1_lfo s' = (if val = 1 \<or> val = 5 then lfo_sync L (t s) (dac1_lfo s) else dac1_lfo s)"
      if "lfo_getMode L (dac1_lfo s) \<noteq> 0" "lfo_getMode1Rate L (dac1_lfo s) = 4"
      using lfo_gate_rate4 [OF that assms(3,4)] g1 1 by simp
    from c0 c1 show ?thesis by blast
  qed
qed

theorem measure_gating_rate_4_witness:
  "uint (cc_control tempo_rate4) = 251 \<and>
   lfo_getMode due (dac0_lfo tempo_rate4) \<noteq> 0 \<and> lfo_getMode1Rate due (dac0_lfo tempo_rate4) = 4 \<and>
   (\<exists>s'. dispatch due 1 tempo_rate4 = Inr s' \<and>
      dac0_lfo s' = lfo_sync due (t tempo_rate4) (dac0_lfo tempo_rate4)) \<and>
   (\<exists>s'. dispatch due 2 tempo_rate4 = Inr s' \<and> dac0_lfo s' = dac0_lfo tempo_rate4) \<and>
   lfo_sync due (t tempo_rate4) (dac0_lfo tempo_rate4) \<noteq> dac0_lfo tempo_rate4"
proof -
  have c: "uint (cc_control tempo_rate4) = 251"
    and m: "lfo_getMode due (dac0_lfo tempo_rate4) \<noteq> 0 \<and>
      lfo_getMode1Rate due (dac0_lfo tempo_rate4) = 4"
    and d: "lfo_sync due (t tempo_rate4) (dac0_lfo tempo_rate4) \<noteq> dac0_lfo tempo_rate4"
    by (simp_all add: tempo_rate4_def power_on_due due_simps)
  have 1: "dac0_lfo s1 = lfo_sync due (t tempo_rate4) (dac0_lfo tempo_rate4)"
    if "dispatch due 1 tempo_rate4 = Inr s1" for s1
    using measure_gating_rate_4 [OF c that] m by simp
  have 2: "dac0_lfo s2 = dac0_lfo tempo_rate4"
    if "dispatch due 2 tempo_rate4 = Inr s2" for s2
    using measure_gating_rate_4 [OF c that] m by simp
  have e1: "\<exists>s'. dispatch due 1 tempo_rate4 = Inr s' \<and>
      dac0_lfo s' = lfo_sync due (t tempo_rate4) (dac0_lfo tempo_rate4)"
    using tempo_rate4_measure(1) 1 by blast
  have e2: "\<exists>s'. dispatch due 2 tempo_rate4 = Inr s' \<and> dac0_lfo s' = dac0_lfo tempo_rate4"
    using tempo_rate4_measure(2) 2 by blast
  show ?thesis using c m d e1 e2 by blast
qed

text \<open>
  Claim C2, as the sketch has it. A measure command with a nonzero value sets
  \<^verbatim>\<open>sync_t0\<close> to the current timestamp exactly when
  \<open>\<lfloor>10 * (value - 1) / rate\<rfloor> mod 10 = 0\<close> for the table entry \<open>rate\<close> at
  \<^verbatim>\<open>sync_mode1_rate\<close>, whatever \<^verbatim>\<open>sync_mode\<close> is: the sketch tests the mode of the two
  oscillators but not the mode of the sync output, so the epoch follows the measures in
  free-running mode too (where the sync phase does not read it).
\<close>

theorem measure_resyncs_sync_epoch:
  assumes "uint (cc_control s) = 251" "0 < val" "dispatch L val s = Inr s'"
  shows "\<exists>rate. freqArray_at (sync_mode1_rate s) = Some rate \<and>
           sync_t0 s' =
             (if \<lfloor>f32_div (of_int (10 * (val - 1))) rate\<rfloor> mod 10 = 0 then t s else sync_t0 s) \<and>
           sync_mode s' = sync_mode s"
proof -
  from assms(1,3) have sm: "song_measure L val s = Inr s'"
    by (simp add: dispatch_eqs(2))
  from assms(2) have nz: "val \<noteq> 0"
    by simp
  show ?thesis
  proof (rule song_measure_Inr [OF sm nz])
    fix g0 g1 rate g
    assume rate: "freqArray_at (sync_mode1_rate s) = Some rate"
      and g: "measure_gate val rate = Inr g"
      and s': "s' = s\<lparr>dac0_lfo := (if g0 then lfo_sync L (t s) (dac0_lfo s) else dac0_lfo s),
            dac1_lfo := (if g1 then lfo_sync L (t s) (dac1_lfo s) else dac1_lfo s),
            sync_t0 := (if g then t s else sync_t0 s),
            pins := (pins s)\<lparr>LED_MEASURE := \<not> LED_MEASURE (pins s)\<rparr>\<rparr>"
    have gate: "g = (\<lfloor>f32_div (of_int (10 * (val - 1))) rate\<rfloor> mod 10 = 0)"
      using assms(2) freqArray_at_pos [OF rate] g by (rule measure_gate_floor)
    have "sync_t0 s' = (if g then t s else sync_t0 s)" and mode: "sync_mode s' = sync_mode s"
      by (simp_all add: s')
    then have "sync_t0 s' =
        (if \<lfloor>f32_div (of_int (10 * (val - 1))) rate\<rfloor> mod 10 = 0 then t s else sync_t0 s)"
      unfolding gate by simp
    with rate mode show ?thesis by blast
  qed
qed

theorem measure_resyncs_sync_epoch_witness:
  "uint (cc_control tempo_rate4) = 251 \<and> sync_mode tempo_rate4 = 0 \<and>
   sync_t0 tempo_rate4 = 0 \<and> t tempo_rate4 = 777 \<and>
   (\<exists>s'. dispatch due 1 tempo_rate4 = Inr s' \<and> sync_t0 s' = 777 \<and> sync_mode s' = 0)"
proof -
  have c: "uint (cc_control tempo_rate4) = 251"
    and f: "sync_mode tempo_rate4 = 0" "sync_t0 tempo_rate4 = 0" "t tempo_rate4 = 777"
      "sync_mode1_rate tempo_rate4 = 15"
    by (simp_all add: tempo_rate4_def power_on_due)
  have "sync_t0 s' = 777 \<and> sync_mode s' = 0" if "dispatch due 1 tempo_rate4 = Inr s'" for s'
    using measure_resyncs_sync_epoch [OF c _ that] by (simp add: f table_15 float_eval)
  then show ?thesis using c f tempo_rate4_measure(1) by blast
qed

text \<open>
  The claim as stated fails: after reset the sync output is free-running
  (\<^verbatim>\<open>sync_mode = 0\<close>) and \<^verbatim>\<open>sync_t0 = 0\<close>; the frame 255, 251, 0, 1 (measure 1), whose
  last byte is read at timestamp 40, leaves the mode at 0 and sets \<^verbatim>\<open>sync_t0\<close> to 40.
\<close>

theorem free_running_sync_epoch_counterexample:
  "sync_mode (power_on due) = 0 \<and> sync_t0 (power_on due) = 0 \<and>
   map_sum id sync_mode
     (run due [([255], 10), ([251], 20), ([0], 30), ([1], 40)] (power_on due)) = Inr 0 \<and>
   map_sum id sync_t0
     (run due [([255], 10), ([251], 20), ([0], 30), ([1], 40)] (power_on due)) = Inr 40"
  by (simp add: power_on_due due_simps step_eqs dispatch_eqs song_measure_def lfo_gate_def
      table_15 measure_gate_rate1 getInt_def)

subsection \<open>The output mixer\<close>

text \<open>
  Claim C6. For a channel with envelope modulation enabled and the DC waveform (code 0),
  the value one call of \<^verbatim>\<open>loop()\<close> writes to the channel's DAC is \<^verbatim>\<open>map\<close> of the
  envelope sample from the range 0 to 4095 into the range from the oscillator's sample
  to 4095. The envelope is sampled for channel 0 first, so channel 1 samples the
  envelope as channel 0 left it.
\<close>

theorem envelope_dc_mixing:
  assumes "loop L now s = Inr s'"
  shows
    "(dac0_adsr_enable s \<and> lfo_getWaveForm L (dac0_lfo s) = 0 \<longrightarrow>
        DAC0 (pins s') =
          arduino_map L (fst (adsr_getWave L now (adsr s))) 0 4095
            (fst (lfo_getWave L now (dac0_lfo s))) 4095) \<and>
     (dac1_adsr_enable s \<and> lfo_getWaveForm L (dac1_lfo s) = 0 \<longrightarrow>
        DAC1 (pins s') =
          arduino_map L (fst (adsr_getWave L now (adsr (write_dac0 L (s\<lparr>t := now\<rparr>))))) 0 4095
            (fst (lfo_getWave L now (dac1_lfo s))) 4095)"
proof (rule loop_pins [OF assms])
  fix s1
  assume 0: "DAC0 (pins s') = DAC0 (pins (write_dac0 L (s\<lparr>t := now\<rparr>)))"
    and 1: "DAC1 (pins s') = DAC1 (pins (write_dac1 L (write_dac0 L (s\<lparr>t := now\<rparr>))))"
  have a: "DAC0 (pins s') =
          arduino_map L (fst (adsr_getWave L now (adsr s))) 0 4095
            (fst (lfo_getWave L now (dac0_lfo s))) 4095"
    if "dac0_adsr_enable s" "lfo_getWaveForm L (dac0_lfo s) = 0"
    unfolding 0 using that by (subst write_dac0_dc) simp_all
  have b: "DAC1 (pins s') =
          arduino_map L (fst (adsr_getWave L now (adsr (write_dac0 L (s\<lparr>t := now\<rparr>))))) 0 4095
            (fst (lfo_getWave L now (dac1_lfo s))) 4095"
    if "dac1_adsr_enable s" "lfo_getWaveForm L (dac1_lfo s) = 0"
    unfolding 1 using that by (subst write_dac1_dc) (simp_all add: write_dac0_fields)
  from a b show ?thesis by blast
qed

text \<open>
  With the DC level 1000 and the envelope sample 2048 the Arduino \<^verbatim>\<open>map\<close> gives
  \<open>2048 * 3095 div 4095 + 1000 = 2547\<close>.
\<close>

theorem envelope_dc_mixing_witness:
  "dac0_adsr_enable dc_envelope \<and> lfo_getWaveForm due (dac0_lfo dc_envelope) = 0 \<and>
   fst (adsr_getWave due 5 (adsr dc_envelope)) = 2048 \<and>
   fst (lfo_getWave due 5 (dac0_lfo dc_envelope)) = 1000 \<and>
   (\<exists>s'. loop due 5 dc_envelope = Inr s' \<and>
      DAC0 (pins s') = arduino_map due 2048 0 4095 1000 4095 \<and> DAC0 (pins s') = 2547)"
proof -
  have h: "dac0_adsr_enable dc_envelope" "lfo_getWaveForm due (dac0_lfo dc_envelope) = 0"
    "fst (adsr_getWave due 5 (adsr dc_envelope)) = 2048"
    "fst (lfo_getWave due 5 (dac0_lfo dc_envelope)) = 1000"
    by (simp_all add: dc_envelope_def power_on_due due_simps)
  from dc_envelope_loop(1) obtain s' where s': "loop due 5 dc_envelope = Inr s'"
    and v: "DAC0 (pins s') = 2547"
    by (cases "loop due 5 dc_envelope") auto
  from envelope_dc_mixing [OF s'] h
  have "DAC0 (pins s') = arduino_map due 2048 0 4095 1000 4095" by simp
  with h s' v show ?thesis by blast
qed

subsection \<open>The sync output and its LED\<close>

text \<open>
  Claim C8, as the sketch has it. After a call of \<^verbatim>\<open>loop()\<close> that starts with
  \<^verbatim>\<open>sync_mode\<close> 0 or 1, the two modes the sketch defines, the sync LED and the sync
  output have the same level. With any other \<^verbatim>\<open>sync_mode\<close> (control 220 stores any
  value) neither branch runs: the sync output keeps its level and the LED is written
  from the phase 0.
\<close>

theorem sync_led_follows_output:
  assumes "loop L now s = Inr s'"
  shows
    "(sync_mode s = 0 \<or> sync_mode s = 1 \<longrightarrow> LED_SYNC (pins s') = SYNC_OUTPUT (pins s')) \<and>
     (sync_mode s \<noteq> 0 \<and> sync_mode s \<noteq> 1 \<longrightarrow>
        SYNC_OUTPUT (pins s') = SYNC_OUTPUT (pins s) \<and> LED_SYNC (pins s') = (blink L 0 \<noteq> 0))"
proof (rule loop_pins [OF assms])
  fix s1
  assume w: "write_sync L (write_dac1 L (write_dac0 L (s\<lparr>t := now\<rparr>))) = Inr s1"
    and o: "SYNC_OUTPUT (pins s') = SYNC_OUTPUT (pins s1)"
    and l: "LED_SYNC (pins s') = LED_SYNC (pins s1)"
  let ?p = "write_dac1 L (write_dac0 L (s\<lparr>t := now\<rparr>))"
  have m: "sync_mode ?p = sync_mode s" and p: "SYNC_OUTPUT (pins ?p) = SYNC_OUTPUT (pins s)"
    by (simp_all add: write_dac0_fields write_dac1_fields)
  show ?thesis
  proof (rule write_sync_Inr [OF w])
    fix x y
    assume s1: "s1 = ?p\<lparr>pins := (pins ?p)\<lparr>SYNC_OUTPUT := x, LED_SYNC := y\<rparr>\<rparr>"
      and eq: "sync_mode ?p = 0 \<or> sync_mode ?p = 1 \<Longrightarrow> x = y"
      and other: "sync_mode ?p \<noteq> 0 \<Longrightarrow> sync_mode ?p \<noteq> 1 \<Longrightarrow>
        x = SYNC_OUTPUT (pins ?p) \<and> y = (blink L 0 \<noteq> 0)"
    have xy: "SYNC_OUTPUT (pins s') = x" "LED_SYNC (pins s') = y"
      by (simp_all add: o l s1)
    from eq other show ?thesis unfolding xy m p by blast
  qed
qed

theorem sync_led_follows_output_witness:
  "sync_mode (power_on due) = 0 \<and>
   (\<exists>s'. loop due 50000 (power_on due) = Inr s' \<and> LED_SYNC (pins s') \<and> SYNC_OUTPUT (pins s'))"
proof -
  have m: "sync_mode (power_on due) = 0" by (simp add: power_on_due)
  have "map_sum id (SYNC_OUTPUT \<circ> pins) (loop due 50000 (power_on due)) = Inr True"
    by (simp add: power_on_due due_simps step_eqs blink_due)
  then obtain s' where s': "loop due 50000 (power_on due) = Inr s'" and o: "SYNC_OUTPUT (pins s')"
    by (cases "loop due 50000 (power_on due)") auto
  from sync_led_follows_output [OF s'] m o have "LED_SYNC (pins s')" by simp
  with m s' o show ?thesis by blast
qed

text \<open>
  The claim as stated fails. After reset the sync output runs free at 10 Hz; the calls
  at 50000, 150000, 250000, 350000 and 450000 microseconds all find the phase at an odd
  multiple of one half and drive the output high. The last four of them read the frame
  255, 220, 0, 2, which sets \<^verbatim>\<open>sync_mode\<close> to 2. The next call leaves the output high
  and writes the LED low.
\<close>

theorem sync_led_diverges_counterexample:
  "map_sum id sync_mode
     (run due [([], 50000), ([255], 150000), ([220], 250000), ([0], 350000), ([2], 450000)]
        (power_on due)) = Inr 2 \<and>
   map_sum id (SYNC_OUTPUT \<circ> pins)
     (run due [([], 50000), ([255], 150000), ([220], 250000), ([0], 350000), ([2], 450000),
        ([], 550000)] (power_on due)) = Inr True \<and>
   map_sum id (LED_SYNC \<circ> pins)
     (run due [([], 50000), ([255], 150000), ([220], 250000), ([0], 350000), ([2], 450000),
        ([], 550000)] (power_on due)) = Inr False"
  by (simp add: power_on_due due_simps step_eqs dispatch_eqs getInt_def blink_due)

subsection \<open>The timeout LED\<close>

text \<open>
  Claim C4, as the sketch has it. A call of \<^verbatim>\<open>loop()\<close> that finds no byte leaves the
  timestamp of the last byte alone, and the builtin LED is on after it exactly when it
  was on before and the time since the last byte (modulo \<open>2 ^ 32\<close>) is at most 500000
  microseconds: the LED goes off once more than 500000 microseconds have passed, not at
  500000. A call that finds a byte sets the timestamp of the last byte to the current
  timestamp and leaves the LED on.
\<close>

theorem liveness_led:
  assumes "loop L now s = Inr s'"
  shows
    "(serial_rx s = [] \<longrightarrow>
        connected_t0 s' = connected_t0 s \<and>
        LED_BUILTIN (pins s') = (LED_BUILTIN (pins s) \<and> now - connected_t0 s \<le> 500000)) \<and>
     (serial_rx s \<noteq> [] \<longrightarrow> connected_t0 s' = now \<and> LED_BUILTIN (pins s'))"
proof (rule loop_Inr [OF assms])
  fix s1
  assume w: "write_sync L (write_dac1 L (write_dac0 L (s\<lparr>t := now\<rparr>))) = Inr s1"
    and b: "serial_block L (timeout_led s1) = Inr s'"
  let ?p = "write_dac1 L (write_dac0 L (s\<lparr>t := now\<rparr>))"
  from write_sync_Inr [OF w] obtain x y where
    s1: "s1 = ?p\<lparr>pins := (pins ?p)\<lparr>SYNC_OUTPUT := x, LED_SYNC := y\<rparr>\<rparr>"
    by blast
  have f: "serial_rx (timeout_led s1) = serial_rx s" "t (timeout_led s1) = now"
    "connected_t0 (timeout_led s1) = connected_t0 s"
    "LED_BUILTIN (pins (timeout_led s1)) =
       (LED_BUILTIN (pins s) \<and> \<not> CONNECTED_TIMEOUT < now - connected_t0 s)"
    by (simp_all add: timeout_led_fields timeout_led_builtin s1 write_dac0_fields write_dac1_fields)
  from serial_block_frame [OF b] show ?thesis
    unfolding f by (auto simp: f not_less)
qed

theorem liveness_led_witness:
  "(\<exists>s1 s2. loop due 0 (serial_receive [255] (power_on due)) = Inr s1 \<and>
      connected_t0 s1 = 0 \<and> LED_BUILTIN (pins s1) \<and> serial_rx s1 = [] \<and>
      loop due 500001 s1 = Inr s2 \<and> \<not> LED_BUILTIN (pins s2))"
proof -
  have "map_sum id (\<lambda>s. (connected_t0 s, LED_BUILTIN (pins s), serial_rx s, sync_mode s))
      (loop due 0 (serial_receive [255] (power_on due))) = Inr (0, True, [], 0)"
    by (simp add: power_on_due due_simps step_eqs)
  then obtain s1 where s1: "loop due 0 (serial_receive [255] (power_on due)) = Inr s1"
    and f: "connected_t0 s1 = 0" "LED_BUILTIN (pins s1)" "serial_rx s1 = []"
    and m: "sync_mode s1 = 0"
    by (cases "loop due 0 (serial_receive [255] (power_on due))") auto
  from loop_no_frame [of s1 due 500001] f m obtain s2 where s2: "loop due 500001 s1 = Inr s2"
    by auto
  from liveness_led [OF s2] f have "\<not> LED_BUILTIN (pins s2)" by simp
  with s1 f s2 show ?thesis by blast
qed

text \<open>
  The claim as stated fails: a byte read at timestamp 0 turns the LED on, and the call
  at timestamp 500000, exactly the timeout later, leaves it on.
\<close>

theorem liveness_led_exact_timeout_counterexample:
  "map_sum id (LED_BUILTIN \<circ> pins) (run due [([255], 0)] (power_on due)) = Inr True \<and>
   map_sum id connected_t0 (run due [([255], 0)] (power_on due)) = Inr 0 \<and>
   map_sum id (LED_BUILTIN \<circ> pins) (run due [([255], 0), ([], 500000)] (power_on due)) = Inr True"
  by (simp add: power_on_due due_simps step_eqs)

subsection \<open>The receiver\<close>

lemma bpm_1200: "f32_div 1200 10 = 120"
  by (simp add: float_eval)

text \<open>
  Claim C1. The receiver starts at \<^verbatim>\<open>rx_state = 0\<close> with an empty buffer, and the bytes
  5, 251, 0, 1, 255, 250, 4, 176 arrive one for each call of \<^verbatim>\<open>loop()\<close>, at any
  timestamps. The first four bytes are dropped: after each of them \<^verbatim>\<open>rx_state\<close> is 0
  again. The next three advance the receiver to 1, 2 and 3, and up to here \<^verbatim>\<open>bpm\<close> is
  untouched. The eighth call dispatches one frame, with control 250 and the value
  \<open>4 * 256 + 176 = 1200\<close>, which sets \<^verbatim>\<open>bpm\<close> to 120 and leaves the receiver at 0. No
  call fails, provided the table index is in range in case the sync output is
  tempo-locked.
\<close>

theorem frame_resync:
  assumes "rx_state s = 0" "serial_rx s = []"
    and "sync_mode s \<noteq> 1 \<or> (0 \<le> sync_mode1_rate s \<and> sync_mode1_rate s < 24)"
  shows "\<exists>s1 s2 s3 s4 s5 s6 s7 s7' s8.
     loop L t1 (serial_receive [5] s) = Inr s1 \<and> rx_state s1 = 0 \<and> bpm s1 = bpm s \<and>
     loop L t2 (serial_receive [251] s1) = Inr s2 \<and> rx_state s2 = 0 \<and> bpm s2 = bpm s \<and>
     loop L t3 (serial_receive [0] s2) = Inr s3 \<and> rx_state s3 = 0 \<and> bpm s3 = bpm s \<and>
     loop L t4 (serial_receive [1] s3) = Inr s4 \<and> rx_state s4 = 0 \<and> bpm s4 = bpm s \<and>
     loop L t5 (serial_receive [255] s4) = Inr s5 \<and> rx_state s5 = 1 \<and> bpm s5 = bpm s \<and>
     loop L t6 (serial_receive [250] s5) = Inr s6 \<and> rx_state s6 = 2 \<and> bpm s6 = bpm s \<and>
     loop L t7 (serial_receive [4] s6) = Inr s7 \<and> rx_state s7 = 3 \<and> bpm s7 = bpm s \<and>
     loop L t8 (serial_receive [176] s7) = dispatch L 1200 s7' \<and> uint (cc_control s7') = 250 \<and>
     dispatch L 1200 s7' = Inr s8 \<and> rx_state s8 = 0 \<and> bpm s8 = 120 \<and>
     run L [([5], t1), ([251], t2), ([0], t3), ([1], t4), ([255], t5), ([250], t6), ([4], t7),
            ([176], t8)] s = Inr s8"
proof -
  note ok = assms(3)
  from loop_receives_byte [OF ok assms(2), of L t1 5] assms(1) obtain s1 where
    1: "loop L t1 (serial_receive [5] s) = Inr s1" and e1: "serial_rx s1 = []"
    and r1: "rx_state s1 = 0" and b1: "bpm s1 = bpm s"
    and m1: "sync_mode s1 = sync_mode s" "sync_mode1_rate s1 = sync_mode1_rate s"
    by auto
  from ok have ok1: "sync_mode s1 \<noteq> 1 \<or> (0 \<le> sync_mode1_rate s1 \<and> sync_mode1_rate s1 < 24)"
    unfolding m1 .
  from loop_receives_byte [OF ok1 e1, of L t2 251] r1 obtain s2 where
    2: "loop L t2 (serial_receive [251] s1) = Inr s2" and e2: "serial_rx s2 = []"
    and r2: "rx_state s2 = 0" and b2: "bpm s2 = bpm s1"
    and m2: "sync_mode s2 = sync_mode s1" "sync_mode1_rate s2 = sync_mode1_rate s1"
    by auto
  from ok1 have ok2: "sync_mode s2 \<noteq> 1 \<or> (0 \<le> sync_mode1_rate s2 \<and> sync_mode1_rate s2 < 24)"
    unfolding m2 .
  from loop_receives_byte [OF ok2 e2, of L t3 0] r2 obtain s3 where
    3: "loop L t3 (serial_receive [0] s2) = Inr s3" and e3: "serial_rx s3 = []"
    and r3: "rx_state s3 = 0" and b3: "bpm s3 = bpm s2"
    and m3: "sync_mode s3 = sync_mode s2" "sync_mode1_rate s3 = sync_mode1_rate s2"
    by auto
  from ok2 have ok3: "sync_mode s3 \<noteq> 1 \<or> (0 \<le> sync_mode1_rate s3 \<and> sync_mode1_rate s3 < 24)"
    unfolding m3 .
  from loop_receives_byte [OF ok3 e3, of L t4 1] r3 obtain s4 where
    4: "loop L t4 (serial_receive [1] s3) = Inr s4" and e4: "serial_rx s4 = []"
    and r4: "rx_state s4 = 0" and b4: "bpm s4 = bpm s3"
    and m4: "sync_mode s4 = sync_mode s3" "sync_mode1_rate s4 = sync_mode1_rate s3"
    by auto
  from ok3 have ok4: "sync_mode s4 \<noteq> 1 \<or> (0 \<le> sync_mode1_rate s4 \<and> sync_mode1_rate s4 < 24)"
    unfolding m4 .
  from loop_receives_byte [OF ok4 e4, of L t5 255] r4 obtain s5 where
    5: "loop L t5 (serial_receive [255] s4) = Inr s5" and e5: "serial_rx s5 = []"
    and r5: "rx_state s5 = 1" and b5: "bpm s5 = bpm s4"
    and m5: "sync_mode s5 = sync_mode s4" "sync_mode1_rate s5 = sync_mode1_rate s4"
    by auto
  from ok4 have ok5: "sync_mode s5 \<noteq> 1 \<or> (0 \<le> sync_mode1_rate s5 \<and> sync_mode1_rate s5 < 24)"
    unfolding m5 .
  from loop_receives_byte [OF ok5 e5, of L t6 250] r5 obtain s6 where
    6: "loop L t6 (serial_receive [250] s5) = Inr s6" and e6: "serial_rx s6 = []"
    and r6: "rx_state s6 = 2" and b6: "bpm s6 = bpm s5" and c6: "cc_control s6 = 250"
    and m6: "sync_mode s6 = sync_mode s5" "sync_mode1_rate s6 = sync_mode1_rate s5"
    by auto
  from ok5 have ok6: "sync_mode s6 \<noteq> 1 \<or> (0 \<le> sync_mode1_rate s6 \<and> sync_mode1_rate s6 < 24)"
    unfolding m6 .
  from loop_receives_byte [OF ok6 e6, of L t7 4] r6 c6 obtain s7 where
    7: "loop L t7 (serial_receive [4] s6) = Inr s7" and e7: "serial_rx s7 = []"
    and r7: "rx_state s7 = 3" and b7: "bpm s7 = bpm s6" and c7: "cc_control s7 = 250"
    and v7: "cc_val1 s7 = 4"
    and m7: "sync_mode s7 = sync_mode s6" "sync_mode1_rate s7 = sync_mode1_rate s6"
    by auto
  from ok6 have ok7: "sync_mode s7 \<noteq> 1 \<or> (0 \<le> sync_mode1_rate s7 \<and> sync_mode1_rate s7 < 24)"
    unfolding m7 .
  have v: "getInt (uint (cc_val1 s7)) (uint (176 :: byte)) = 1200"
    unfolding v7 getInt_bytes by simp
  from loop_receives_frame [OF ok7 e7 r7, of L t8 176] obtain s7' where
    8: "loop L t8 (serial_receive [176] s7) = dispatch L 1200 s7'"
    and r8: "rx_state s7' = 0" and c8: "uint (cc_control s7') = 250"
    unfolding v c7 by auto
  define s8 where "s8 = s7'\<lparr>bpm := f32_div 1200 10,
            dac0_lfo := lfo_setMode1Bpm L (f32_div 1200 10) (dac0_lfo s7'),
            dac1_lfo := lfo_setMode1Bpm L (f32_div 1200 10) (dac1_lfo s7')\<rparr>"
  have d: "dispatch L 1200 s7' = Inr s8"
    unfolding s8_def using dispatch_eqs(1) [OF c8, of L 1200] by simp
  have f8: "rx_state s8 = 0" "bpm s8 = 120"
    by (simp_all add: s8_def r8 bpm_1200)
  have run: "run L [([5], t1), ([251], t2), ([0], t3), ([1], t4), ([255], t5), ([250], t6), ([4], t7),
            ([176], t8)] s = Inr s8"
    by (simp add: 1 2 3 4 5 6 7 8 d)
  note b = b1 b2 [unfolded b1] b3 [unfolded b2 b1] b4 [unfolded b3 b2 b1]
    b5 [unfolded b4 b3 b2 b1] b6 [unfolded b5 b4 b3 b2 b1] b7 [unfolded b6 b5 b4 b3 b2 b1]
  show ?thesis
    apply (rule exI [of _ s1], rule exI [of _ s2], rule exI [of _ s3], rule exI [of _ s4])
    apply (rule exI [of _ s5], rule exI [of _ s6], rule exI [of _ s7], rule exI [of _ s7'])
    apply (rule exI [of _ s8])
    apply (intro conjI)
    apply (fact 1 2 3 4 5 6 7 8 d c8 f8 r1 r2 r3 r4 r5 r6 r7 b run)+
    done
qed

theorem frame_resync_witness:
  "rx_state ((power_on due)\<lparr>bpm := 90\<rparr>) = 0 \<and> serial_rx ((power_on due)\<lparr>bpm := 90\<rparr>) = [] \<and>
   sync_mode ((power_on due)\<lparr>bpm := 90\<rparr>) \<noteq> 1 \<and>
   (\<exists>s8. run due [([5], 10), ([251], 20), ([0], 30), ([1], 40), ([255], 50), ([250], 60),
                   ([4], 70), ([176], 80)] ((power_on due)\<lparr>bpm := 90\<rparr>) = Inr s8 \<and>
      rx_state s8 = 0 \<and> bpm s8 = 120)"
proof -
  let ?s = "(power_on due)\<lparr>bpm := 90\<rparr>"
  have h: "rx_state ?s = 0" "serial_rx ?s = []"
    "sync_mode ?s \<noteq> 1 \<or> (0 \<le> sync_mode1_rate ?s \<and> sync_mode1_rate ?s < 24)"
    and m: "sync_mode ?s \<noteq> 1"
    by (simp_all add: power_on_due)
  from frame_resync [OF h, of due 10 20 30 40 50 60 70 80]
  have "\<exists>s8. run due [([5], 10), ([251], 20), ([0], 30), ([1], 40), ([255], 50), ([250], 60),
                   ([4], 70), ([176], 80)] ?s = Inr s8 \<and> rx_state s8 = 0 \<and> bpm s8 = 120"
    by blast
  with h(1,2) m show ?thesis by blast
qed

end
